theory Spec2Isabelle
  imports Complex_Main "HOL-Library.List_Lexorder" "HOL-Library.Char_ord"
    "HOL-Library.Product_Lexorder"
begin

section \<open>Python values\<close>

text \<open>
  A Python float is a real number or the not-a-number value; rounding is not modelled.
  Every ordering comparison with NaN is false, which is what the chained comparison
  \<^verbatim>\<open>-90 <= min_lat <= max_lat <= 90\<close> of \<^verbatim>\<open>_validate_coordinates\<close> sees.
\<close>

datatype pyfloat = Fl real | NaN

fun py_le :: "pyfloat \<Rightarrow> pyfloat \<Rightarrow> bool" where
  "py_le (Fl a) (Fl b) = (a \<le> b)"
| "py_le _ _ = False"

text \<open>
  The values found in the cells of a data frame and of the dictionaries made from it.
  \<^verbatim>\<open>pd.isna\<close> holds of \<^verbatim>\<open>None\<close> and of NaN.
\<close>

datatype pyval = PyNone | PyNaN | PyNum real | PyStr string

fun isna :: "pyval \<Rightarrow> bool" where
  "isna PyNone = True"
| "isna PyNaN = True"
| "isna _ = False"

type_synonym pyrecord = "(string \<times> pyval) list"

text \<open>A \<^verbatim>\<open>datetime.date\<close>: year, month, day, compared in that order.\<close>

datatype pydate = Date int int int

fun date_gt :: "pydate \<Rightarrow> pydate \<Rightarrow> bool" where
  "date_gt (Date y1 m1 d1) (Date y2 m2 d2) =
     (y1 > y2 \<or> (y1 = y2 \<and> (m1 > m2 \<or> (m1 = m2 \<and> d1 > d2))))"

text \<open>The argument type \<^verbatim>\<open>Union[str, date]\<close> of the date-range query.\<close>

datatype date_arg = DStr string | DObj pydate

text \<open>
  Exceptions carry their text, which is what \<^verbatim>\<open>str(e)\<close> returns.
  \<open>OceanDataQueryError\<close> is the module's own class; the others stand for what the
  standard library, the driver and the database raise.
\<close>

datatype exn =
    OceanDataQueryError string
  | ValueError string
  | OperationalError string
  | ProgrammingError string

fun str_exn :: "exn \<Rightarrow> string" where
  "str_exn (OceanDataQueryError m) = m"
| "str_exn (ValueError m) = m"
| "str_exn (OperationalError m) = m"
| "str_exn (ProgrammingError m) = m"

text \<open>Decimal rendering of a natural number, and the \<^verbatim>\<open>{count:,}\<close> format.\<close>

function str_nat :: "nat \<Rightarrow> string" where
  "str_nat n =
     (if n < 10 then [''0123456789'' ! n]
      else str_nat (n div 10) @ [''0123456789'' ! (n mod 10)])"
  by pat_completeness auto
termination
  by (relation "measure id") auto

function thousands :: "string \<Rightarrow> string" where
  "thousands s =
     (if length s \<le> 3 then s
      else thousands (take (length s - 3) s) @ '','' @ drop (length s - 3) s)"
  by pat_completeness auto
termination
  by (relation "measure length") auto

text \<open>Both are unfolded on demand only.\<close>

declare str_nat.simps [simp del]

declare thousands.simps [simp del]

text \<open>
  What the functions use of the Python runtime and is not code of the repository:
  the clock (\<open>now rt k\<close> is the k-th reading during a call, as an ISO-8601 string),
  \<^verbatim>\<open>datetime.strptime(s, "%Y-%m-%d")\<close> (the text of its \<^verbatim>\<open>ValueError\<close> on the
  left), \<^verbatim>\<open>date.strftime("%Y-%m-%d")\<close>, and the rendering of a pair of floats
  inside an f-string.
\<close>

record runtime =
  now :: "nat \<Rightarrow> string"
  strptime :: "string \<Rightarrow> string + pydate"
  strftime :: "pydate \<Rightarrow> string"
  repr_range :: "pyfloat \<times> pyfloat \<Rightarrow> string"

section \<open>The table and the statements sent to the database\<close>

text \<open>
  One row of the observation table as the loader creates it from the CSV file: the
  \<^verbatim>\<open>datetime\<close> column is text, \<^verbatim>\<open>lat\<close>, \<^verbatim>\<open>lon\<close> and \<^verbatim>\<open>mld\<close> are
  numeric, every column is nullable (\<open>None\<close> is SQL NULL), and the other columns pass
  through by name.
\<close>

datatype sqlval = SNull | SNum real | SText string

record row =
  datetime :: "string option"
  lat :: "real option"
  lon :: "real option"
  mld :: "real option"
  others :: "(string \<times> sqlval) list"

datatype num_column = Lat | Lon | Mld

datatype sort_key = ByDatetime | ByNum num_column

text \<open>
  The conditions of the WHERE clauses: \<^verbatim>\<open>col BETWEEN :lo AND :hi\<close> on a numeric
  column, \<^verbatim>\<open>datetime >= :s\<close>, \<^verbatim>\<open>datetime <= :s\<close>, and \<^verbatim>\<open>AND\<close>.
\<close>

datatype cond =
    NumBetween num_column pyfloat pyfloat
  | DatetimeGe string
  | DatetimeLe string
  | Conj cond cond

text \<open>\<^verbatim>\<open>SELECT * FROM t [WHERE c] ORDER BY keys LIMIT :limit\<close>.\<close>

record select_rows =
  from_table :: string
  where_clause :: "cond option"
  order_by :: "sort_key list"
  limit_param :: int

text \<open>
  The statements the server receives. \<open>TableProbe s\<close> is the catalog query by which
  \<^verbatim>\<open>pd.read_sql\<close> asks whether the string it was given names a table, before it
  executes that string as the query \<open>s\<close>.
\<close>

datatype statement =
    Select1
  | SelectRows select_rows
  | SelectCount string
  | SelectSummary string
  | SelectTemporal string
  | ReplaceTable string "row list"
  | TableProbe statement

text \<open>
  A statement reaches the server in one of two ways. Wrapped in \<^verbatim>\<open>sqlalchemy.text\<close>,
  its \<^verbatim>\<open>:name\<close> parameters are bound to the values given. As a plain string it is
  handed to the driver as it is, and the driver substitutes \<^verbatim>\<open>%(name)s\<close> only: every
  \<^verbatim>\<open>:name\<close> of the text arrives at the server as written, where it is a syntax
  error.
\<close>

datatype submission = ThroughText | PlainString

fun cond_parameters :: "cond \<Rightarrow> string list" where
  "cond_parameters (NumBetween Lat lo hi) = [''min_lat'', ''max_lat'']"
| "cond_parameters (NumBetween Lon lo hi) = [''min_lon'', ''max_lon'']"
| "cond_parameters (NumBetween Mld lo hi) = [''min_mld'', ''max_mld'']"
| "cond_parameters (DatetimeGe s) = [''start_date'']"
| "cond_parameters (DatetimeLe s) = [''end_date'']"
| "cond_parameters (Conj a b) = cond_parameters a @ cond_parameters b"

text \<open>The \<^verbatim>\<open>:name\<close> parameters in the text of a statement.\<close>

fun named_parameters :: "statement \<Rightarrow> string list" where
  "named_parameters (SelectRows q) =
     (case where_clause q of None \<Rightarrow> [] | Some c \<Rightarrow> cond_parameters c) @ [''limit'']"
| "named_parameters _ = []"

text \<open>
  The database at the time of a call: whether a connection can be opened
  (\<open>conn_error\<close> is the driver's message when not), the tables by name, a failure the
  server or the driver answers a statement with (\<open>fault\<close>), the server's conversion of
  text to a date (\<open>pg_date\<close>, \<open>None\<close> for text it rejects), and the statements
  received so far.
\<close>

record db =
  conn_error :: "string option"
  tables :: "string \<Rightarrow> row list option"
  fault :: "statement \<Rightarrow> string option"
  pg_date :: "string \<Rightarrow> pydate option"
  sent :: "statement list"

definition connect :: "db \<Rightarrow> exn + unit" where
  "connect d = (case conn_error d of Some m \<Rightarrow> Inl (OperationalError m) | None \<Rightarrow> Inr ())"

text \<open>
  Sending a statement records it; the answer is the injected failure, or a syntax error
  when a \<^verbatim>\<open>:name\<close> of a plain string arrives unbound (the server's message is
  \<^verbatim>\<open>syntax error at or near ":"\<close>), or an error when the table does not exist, or
  what the statement computes from the table's rows.
\<close>

definition run ::
  "db \<Rightarrow> submission \<Rightarrow> statement \<Rightarrow> string \<Rightarrow> (row list \<Rightarrow> exn + 'a) \<Rightarrow> (exn + 'a) \<times> db" where
  "run d how stmt t sem =
     ((case fault d stmt of
         Some m \<Rightarrow> Inl (ProgrammingError m)
       | None \<Rightarrow>
           if how = PlainString \<and> named_parameters stmt \<noteq> []
           then Inl (ProgrammingError ''syntax error at or near :'')
           else
             (case tables d t of
                None \<Rightarrow> Inl (ProgrammingError (''relation '' @ t @ '' does not exist''))
              | Some rs \<Rightarrow> sem rs)),
      d\<lparr>sent := sent d @ [stmt]\<rparr>)"

text \<open>
  The probe of \<^verbatim>\<open>pd.read_sql\<close>: the catalog is asked, and whatever it answers or
  fails with is dropped (\<^verbatim>\<open>except Exception: _is_table_name = False\<close>); the text of a
  query names no table.
\<close>

definition table_probe :: "db \<Rightarrow> statement \<Rightarrow> db" where
  "table_probe d stmt = d\<lparr>sent := sent d @ [TableProbe stmt]\<rparr>"

subsection \<open>WHERE: three-valued conditions\<close>

fun num_col :: "num_column \<Rightarrow> row \<Rightarrow> real option" where
  "num_col Lat r = lat r"
| "num_col Lon r = lon r"
| "num_col Mld r = mld r"

text \<open>The server orders NaN above every number.\<close>

fun pg_ge :: "real \<Rightarrow> pyfloat \<Rightarrow> bool" where
  "pg_ge x (Fl a) = (a \<le> x)"
| "pg_ge x NaN = False"

fun pg_le :: "real \<Rightarrow> pyfloat \<Rightarrow> bool" where
  "pg_le x (Fl b) = (x \<le> b)"
| "pg_le x NaN = True"

fun sql_and :: "bool option \<Rightarrow> bool option \<Rightarrow> bool option" where
  "sql_and (Some False) _ = Some False"
| "sql_and _ (Some False) = Some False"
| "sql_and (Some True) (Some True) = Some True"
| "sql_and _ _ = None"

fun eval_cond :: "cond \<Rightarrow> row \<Rightarrow> bool option" where
  "eval_cond (NumBetween c lo hi) r =
     (case num_col c r of None \<Rightarrow> None | Some x \<Rightarrow> Some (pg_ge x lo \<and> pg_le x hi))"
| "eval_cond (DatetimeGe s) r =
     (case datetime r of None \<Rightarrow> None | Some t \<Rightarrow> Some (s \<le> t))"
| "eval_cond (DatetimeLe s) r =
     (case datetime r of None \<Rightarrow> None | Some t \<Rightarrow> Some (t \<le> s))"
| "eval_cond (Conj a b) r = sql_and (eval_cond a r) (eval_cond b r)"

definition sql_where :: "cond option \<Rightarrow> row list \<Rightarrow> row list" where
  "sql_where c rs =
     (case c of None \<Rightarrow> rs | Some w \<Rightarrow> filter (\<lambda>r. eval_cond w r = Some True) rs)"

subsection \<open>ORDER BY: ascending, NULL last\<close>

text \<open>
  Text is compared character by character, numbers by value, and NULL follows every
  value. The server may return rows with equal keys in any order; the sort below keeps
  them in the order of the table, which is one of the orders it may choose.
\<close>

fun null_last_le :: "('a::linorder) option \<Rightarrow> 'a option \<Rightarrow> bool" where
  "null_last_le _ None = True"
| "null_last_le None (Some _) = False"
| "null_last_le (Some a) (Some b) = (a \<le> b)"

fun key_le :: "sort_key \<Rightarrow> row \<Rightarrow> row \<Rightarrow> bool" where
  "key_le ByDatetime r s = null_last_le (datetime r) (datetime s)"
| "key_le (ByNum c) r s = null_last_le (num_col c r) (num_col c s)"

fun key_eq :: "sort_key \<Rightarrow> row \<Rightarrow> row \<Rightarrow> bool" where
  "key_eq ByDatetime r s = (datetime r = datetime s)"
| "key_eq (ByNum c) r s = (num_col c r = num_col c s)"

text \<open>The keys are compared in turn; rows equal on every key are in either order.\<close>

fun rows_le :: "sort_key list \<Rightarrow> row \<Rightarrow> row \<Rightarrow> bool" where
  "rows_le [] r s = True"
| "rows_le (k # ks) r s = (if key_eq k r s then rows_le ks r s else key_le k r s)"

fun insert_by :: "('a \<Rightarrow> 'a \<Rightarrow> bool) \<Rightarrow> 'a \<Rightarrow> 'a list \<Rightarrow> 'a list" where
  "insert_by le x [] = [x]"
| "insert_by le x (y # ys) = (if le x y then x # y # ys else y # insert_by le x ys)"

definition sort_by :: "('a \<Rightarrow> 'a \<Rightarrow> bool) \<Rightarrow> 'a list \<Rightarrow> 'a list" where
  "sort_by le xs = foldr (insert_by le) xs []"

definition sql_order_by :: "sort_key list \<Rightarrow> row list \<Rightarrow> row list" where
  "sql_order_by ks rs = sort_by (rows_le ks) rs"

subsection \<open>LIMIT and the row-returning statement\<close>

definition select_rows_sem :: "select_rows \<Rightarrow> row list \<Rightarrow> exn + row list" where
  "select_rows_sem q rs =
     (if limit_param q < 0 then Inl (ProgrammingError ''LIMIT must not be negative'')
      else Inr (take (nat (limit_param q))
                  (sql_order_by (order_by q) (sql_where (where_clause q) rs))))"

subsection \<open>The result of a query as a data frame\<close>

text \<open>
  \<^verbatim>\<open>pd.read_sql\<close> builds one column per result column. A NULL of a column in which
  a number was seen becomes NaN (the column is a float column); in a text column, and
  in a column holding nothing but NULLs, it stays \<^verbatim>\<open>None\<close>.
  \<^verbatim>\<open>df.to_dict('records')\<close> gives one dictionary per row.
\<close>

definition null_repr :: "bool \<Rightarrow> pyval" where
  "null_repr number_seen = (if number_seen then PyNaN else PyNone)"

definition num_cell :: "bool \<Rightarrow> real option \<Rightarrow> pyval" where
  "num_cell number_seen v = (case v of None \<Rightarrow> null_repr number_seen | Some x \<Rightarrow> PyNum x)"

definition text_cell :: "string option \<Rightarrow> pyval" where
  "text_cell v = (case v of None \<Rightarrow> PyNone | Some s \<Rightarrow> PyStr s)"

fun is_num :: "sqlval \<Rightarrow> bool" where
  "is_num (SNum _) = True"
| "is_num _ = False"

definition number_seen_in :: "string \<Rightarrow> row list \<Rightarrow> bool" where
  "number_seen_in k rs = list_ex (\<lambda>r. list_ex (\<lambda>(k', v). k' = k \<and> is_num v) (others r)) rs"

fun other_cell :: "bool \<Rightarrow> sqlval \<Rightarrow> pyval" where
  "other_cell number_seen SNull = null_repr number_seen"
| "other_cell number_seen (SNum x) = PyNum x"
| "other_cell number_seen (SText s) = PyStr s"

definition frame_record :: "row list \<Rightarrow> row \<Rightarrow> pyrecord" where
  "frame_record rs r =
     [(''datetime'', text_cell (datetime r)),
      (''lat'', num_cell (list_ex (\<lambda>s. lat s \<noteq> None) rs) (lat r)),
      (''lon'', num_cell (list_ex (\<lambda>s. lon s \<noteq> None) rs) (lon r)),
      (''mld'', num_cell (list_ex (\<lambda>s. mld s \<noteq> None) rs) (mld r))]
     @ map (\<lambda>(k, v). (k, other_cell (number_seen_in k rs) v)) (others r)"

definition to_dict_records :: "row list \<Rightarrow> pyrecord list" where
  "to_dict_records rs = map (frame_record rs) rs"

text \<open>
  \<^verbatim>\<open>pd.read_sql(query, conn, params=...)\<close> for a row-returning statement. The query
  is an f-string, not a \<^verbatim>\<open>text\<close> object: after the probe, the string goes to the
  driver with its \<^verbatim>\<open>:limit\<close> and the other named parameters unbound.
\<close>

definition read_sql :: "db \<Rightarrow> select_rows \<Rightarrow> (exn + row list) \<times> db" where
  "read_sql d q =
     run (table_probe d (SelectRows q)) PlainString (SelectRows q) (from_table q)
       (select_rows_sem q)"

section \<open>The query service\<close>

text \<open>
  The object \<^verbatim>\<open>get_data_summary\<close> returns, its nested keys written flat:
  \<^verbatim>\<open>dataset_overview\<close> (\<open>total_records\<close>, \<open>unique_dates\<close>, \<^verbatim>\<open>date_range\<close> with
  \<open>earliest\<close> and \<open>latest\<close>), \<^verbatim>\<open>geographic_extent\<close> (the minimum and maximum of
  \<^verbatim>\<open>latitude_range\<close> and \<^verbatim>\<open>longitude_range\<close>), \<^verbatim>\<open>mixed_layer_depth_stats\<close>
  (\<open>average\<close>, \<open>minimum\<close>, \<open>maximum\<close>) and \<^verbatim>\<open>temporal_distribution\<close>. \<open>None\<close> is
  Python's \<^verbatim>\<open>None\<close>, a JSON null.
\<close>

record summary_data =
  total_records :: int
  unique_dates :: int
  date_earliest :: "string option"
  date_latest :: "string option"
  latitude_min :: "real option"
  latitude_max :: "real option"
  longitude_min :: "real option"
  longitude_max :: "real option"
  mld_average :: "real option"
  mld_minimum :: "real option"
  mld_maximum :: "real option"
  temporal_distribution :: "pyrecord list"

text \<open>
  The response envelope. Its \<open>data\<close> is a list of records, the count object, the
  summary object or the empty object; the metadata object is present on success only.
\<close>

datatype payload =
    Records "pyrecord list"
  | TotalRecords int
  | Summary summary_data
  | EmptyDict

datatype metadata =
    SampleMeta int nat "string list"
  | CountMeta string
  | LocationMeta "pyfloat \<times> pyfloat" "pyfloat \<times> pyfloat" int nat "string list"
  | DateRangeMeta string string int nat "string list"
  | SummaryMeta string string

record envelope =
  success :: bool
  timestamp :: string
  message :: string
  data :: payload
  metadata :: "metadata option"

record query_service =
  table_name :: string

definition format_response :: "string \<Rightarrow> payload \<Rightarrow> bool \<Rightarrow> string \<Rightarrow> metadata option \<Rightarrow> envelope" where
  "format_response clock dat ok msg meta =
     \<lparr>success = ok, timestamp = clock, message = msg, data = dat, metadata = meta\<rparr>"

text \<open>The loop that replaces every value \<^verbatim>\<open>pd.isna\<close> holds of by \<^verbatim>\<open>None\<close>.\<close>

definition nan_to_none :: "pyrecord list \<Rightarrow> pyrecord list" where
  "nan_to_none records = map (map (\<lambda>(key, v). (key, if isna v then PyNone else v))) records"

text \<open>\<^verbatim>\<open>list(df.columns) if not df.empty else []\<close>.\<close>

definition frame_columns :: "pyrecord list \<Rightarrow> string list" where
  "frame_columns records = (case records of [] \<Rightarrow> [] | r # _ \<Rightarrow> map fst r)"

subsection \<open>\<^verbatim>\<open>get_sample_data\<close>\<close>

definition sample_query :: "string \<Rightarrow> int \<Rightarrow> select_rows" where
  "sample_query t limit =
     \<lparr>from_table = t, where_clause = None, order_by = [ByDatetime], limit_param = limit\<rparr>"

text \<open>The body of the \<^verbatim>\<open>try\<close> block: an exception raised inside it is an \<open>Inl\<close>.\<close>

definition get_sample_data_try ::
  "runtime \<Rightarrow> query_service \<Rightarrow> db \<Rightarrow> int \<Rightarrow> (exn + envelope) \<times> db" where
  "get_sample_data_try rt self d limit =
     (if limit \<le> 0 \<or> limit > 1000
      then (Inl (OceanDataQueryError ''Limit must be between 1 and 1000''), d)
      else
        (case connect d of
           Inl e \<Rightarrow> (Inl e, d)
         | Inr _ \<Rightarrow>
             (case read_sql d (sample_query (table_name self) limit) of
                (Inl e, d') \<Rightarrow> (Inl e, d')
              | (Inr df, d') \<Rightarrow>
                  (let records = nan_to_none (to_dict_records df);
                       meta = SampleMeta limit (length records)
                                (frame_columns (to_dict_records df))
                   in (Inr (format_response (now rt 0) (Records records) True
                              (''Retrieved '' @ str_nat (length records) @ '' sample records'')
                              (Some meta)), d')))))"

definition get_sample_data ::
  "runtime \<Rightarrow> query_service \<Rightarrow> db \<Rightarrow> int \<Rightarrow> envelope \<times> db" where
  "get_sample_data rt self d limit =
     (case get_sample_data_try rt self d limit of
        (Inr response, d') \<Rightarrow> (response, d')
      | (Inl e, d') \<Rightarrow>
          (format_response (now rt 0) (Records []) False
             (''Error retrieving sample data: '' @ str_exn e) None, d'))"

subsection \<open>\<^verbatim>\<open>get_data_count\<close>\<close>

text \<open>
  \<^verbatim>\<open>conn.execute(text("SELECT COUNT(*) as total_records FROM t"))\<close>, read with
  \<^verbatim>\<open>fetchone()[0]\<close>.
\<close>

definition execute_count :: "db \<Rightarrow> string \<Rightarrow> (exn + nat) \<times> db" where
  "execute_count d t = run d ThroughText (SelectCount t) t (\<lambda>rs. Inr (length rs))"

definition get_data_count_try ::
  "runtime \<Rightarrow> query_service \<Rightarrow> db \<Rightarrow> (exn + envelope) \<times> db" where
  "get_data_count_try rt self d =
     (case connect d of
        Inl e \<Rightarrow> (Inl e, d)
      | Inr _ \<Rightarrow>
          (case execute_count d (table_name self) of
             (Inl e, d') \<Rightarrow> (Inl e, d')
           | (Inr count, d') \<Rightarrow>
               (Inr (format_response (now rt 0) (TotalRecords (int count)) True
                       (''Total records in '' @ table_name self @ '': ''
                          @ thousands (str_nat count))
                       (Some (CountMeta (table_name self)))), d')))"

definition get_data_count ::
  "runtime \<Rightarrow> query_service \<Rightarrow> db \<Rightarrow> envelope \<times> db" where
  "get_data_count rt self d =
     (case get_data_count_try rt self d of
        (Inr response, d') \<Rightarrow> (response, d')
      | (Inl e, d') \<Rightarrow>
          (format_response (now rt 0) (TotalRecords 0) False
             (''Error counting records: '' @ str_exn e) None, d'))"

subsection \<open>\<^verbatim>\<open>query_by_location\<close>\<close>

text \<open>
  \<^verbatim>\<open>_validate_coordinates\<close>: a range that is given (a pair is a non-empty tuple,
  hence true in \<^verbatim>\<open>if lat_range:\<close>) must satisfy the chained comparison.
\<close>

definition validate_coordinates ::
  "runtime \<Rightarrow> (pyfloat \<times> pyfloat) option \<Rightarrow> (pyfloat \<times> pyfloat) option \<Rightarrow> exn + bool" where
  "validate_coordinates rt lat_range lon_range =
     (case (case lat_range of
              None \<Rightarrow> Inr ()
            | Some (min_lat, max_lat) \<Rightarrow>
                if \<not> (py_le (Fl (- 90)) min_lat \<and> py_le min_lat max_lat \<and> py_le max_lat (Fl 90))
                then Inl (OceanDataQueryError
                       (''Invalid latitude range: '' @ repr_range rt (min_lat, max_lat)
                          @ ''. Must be between -90 and 90''))
                else Inr ()) of
        Inl e \<Rightarrow> Inl e
      | Inr _ \<Rightarrow>
          (case lon_range of
             None \<Rightarrow> Inr True
           | Some (min_lon, max_lon) \<Rightarrow>
               if \<not> (py_le (Fl (- 180)) min_lon \<and> py_le min_lon max_lon \<and> py_le max_lon (Fl 180))
               then Inl (OceanDataQueryError
                      (''Invalid longitude range: '' @ repr_range rt (min_lon, max_lon)
                         @ ''. Must be between -180 and 180''))
               else Inr True))"

definition location_query :: "string \<Rightarrow> pyfloat \<times> pyfloat \<Rightarrow> pyfloat \<times> pyfloat \<Rightarrow> int \<Rightarrow> select_rows" where
  "location_query t lat_range lon_range limit =
     (case (lat_range, lon_range) of
        ((min_lat, max_lat), (min_lon, max_lon)) \<Rightarrow>
          \<lparr>from_table = t,
           where_clause = Some (Conj (NumBetween Lat min_lat max_lat)
                                     (NumBetween Lon min_lon max_lon)),
           order_by = [ByDatetime],
           limit_param = limit\<rparr>)"

definition query_by_location_try ::
  "runtime \<Rightarrow> query_service \<Rightarrow> db \<Rightarrow> pyfloat \<times> pyfloat \<Rightarrow> pyfloat \<times> pyfloat \<Rightarrow> int
     \<Rightarrow> (exn + envelope) \<times> db" where
  "query_by_location_try rt self d lat_range lon_range limit =
     (case validate_coordinates rt (Some lat_range) (Some lon_range) of
        Inl e \<Rightarrow> (Inl e, d)
      | Inr _ \<Rightarrow>
          if limit \<le> 0 \<or> limit > 10000
          then (Inl (OceanDataQueryError ''Limit must be between 1 and 10,000''), d)
          else
            (case connect d of
               Inl e \<Rightarrow> (Inl e, d)
             | Inr _ \<Rightarrow>
                 (case read_sql d (location_query (table_name self) lat_range lon_range limit) of
                    (Inl e, d') \<Rightarrow> (Inl e, d')
                  | (Inr df, d') \<Rightarrow>
                      (let records = nan_to_none (to_dict_records df);
                           meta = LocationMeta lat_range lon_range limit (length records)
                                    (frame_columns (to_dict_records df))
                       in (Inr (format_response (now rt 0) (Records records) True
                                  (''Retrieved '' @ str_nat (length records)
                                     @ '' records for location query'')
                                  (Some meta)), d')))))"

definition query_by_location ::
  "runtime \<Rightarrow> query_service \<Rightarrow> db \<Rightarrow> pyfloat \<times> pyfloat \<Rightarrow> pyfloat \<times> pyfloat \<Rightarrow> int
     \<Rightarrow> envelope \<times> db" where
  "query_by_location rt self d lat_range lon_range limit =
     (case query_by_location_try rt self d lat_range lon_range limit of
        (Inr response, d') \<Rightarrow> (response, d')
      | (Inl e, d') \<Rightarrow>
          (format_response (now rt 0) (Records []) False
             (''Error querying by location: '' @ str_exn e) None, d'))"

subsection \<open>\<^verbatim>\<open>query_by_date_range\<close>\<close>

text \<open>
  One argument of \<^verbatim>\<open>_validate_dates\<close>: a string is parsed and kept as it is, a date
  object is taken at midnight and formatted.
\<close>

definition date_and_text :: "runtime \<Rightarrow> date_arg \<Rightarrow> exn + (pydate \<times> string)" where
  "date_and_text rt a =
     (case a of
        DStr s \<Rightarrow> (case strptime rt s of Inl m \<Rightarrow> Inl (ValueError m) | Inr dt \<Rightarrow> Inr (dt, s))
      | DObj dt \<Rightarrow> Inr (dt, strftime rt dt))"

text \<open>
  The \<^verbatim>\<open>try\<close> block of \<^verbatim>\<open>_validate_dates\<close>, and its \<^verbatim>\<open>except ValueError\<close>,
  which lets every other exception pass.
\<close>

definition validate_dates_try :: "runtime \<Rightarrow> date_arg \<Rightarrow> date_arg \<Rightarrow> exn + (string \<times> string)" where
  "validate_dates_try rt start_date end_date =
     (case date_and_text rt start_date of
        Inl e \<Rightarrow> Inl e
      | Inr (start_dt, start_str) \<Rightarrow>
          (case date_and_text rt end_date of
             Inl e \<Rightarrow> Inl e
           | Inr (end_dt, end_str) \<Rightarrow>
               if date_gt start_dt end_dt
               then Inl (OceanDataQueryError
                      (''Start date '' @ start_str @ '' must be before end date '' @ end_str))
               else Inr (start_str, end_str)))"

definition validate_dates :: "runtime \<Rightarrow> date_arg \<Rightarrow> date_arg \<Rightarrow> exn + (string \<times> string)" where
  "validate_dates rt start_date end_date =
     (case validate_dates_try rt start_date end_date of
        Inl (ValueError m) \<Rightarrow> Inl (OceanDataQueryError (''Invalid date format: '' @ m))
      | other \<Rightarrow> other)"

definition date_range_query :: "string \<Rightarrow> string \<Rightarrow> string \<Rightarrow> int \<Rightarrow> select_rows" where
  "date_range_query t start_str end_str limit =
     \<lparr>from_table = t,
      where_clause = Some (Conj (DatetimeGe start_str) (DatetimeLe end_str)),
      order_by = [ByDatetime],
      limit_param = limit\<rparr>"

definition query_by_date_range_try ::
  "runtime \<Rightarrow> query_service \<Rightarrow> db \<Rightarrow> date_arg \<Rightarrow> date_arg \<Rightarrow> int \<Rightarrow> (exn + envelope) \<times> db" where
  "query_by_date_range_try rt self d start_date end_date limit =
     (case validate_dates rt start_date end_date of
        Inl e \<Rightarrow> (Inl e, d)
      | Inr (start_str, end_str) \<Rightarrow>
          if limit \<le> 0 \<or> limit > 10000
          then (Inl (OceanDataQueryError ''Limit must be between 1 and 10,000''), d)
          else
            (case connect d of
               Inl e \<Rightarrow> (Inl e, d)
             | Inr _ \<Rightarrow>
                 (case read_sql d (date_range_query (table_name self) start_str end_str limit) of
                    (Inl e, d') \<Rightarrow> (Inl e, d')
                  | (Inr df, d') \<Rightarrow>
                      (let records = nan_to_none (to_dict_records df);
                           meta = DateRangeMeta start_str end_str limit (length records)
                                    (frame_columns (to_dict_records df))
                       in (Inr (format_response (now rt 0) (Records records) True
                                  (''Retrieved '' @ str_nat (length records)
                                     @ '' records for date range '' @ start_str
                                     @ '' to '' @ end_str)
                                  (Some meta)), d')))))"

definition query_by_date_range ::
  "runtime \<Rightarrow> query_service \<Rightarrow> db \<Rightarrow> date_arg \<Rightarrow> date_arg \<Rightarrow> int \<Rightarrow> envelope \<times> db" where
  "query_by_date_range rt self d start_date end_date limit =
     (case query_by_date_range_try rt self d start_date end_date limit of
        (Inr response, d') \<Rightarrow> (response, d')
      | (Inl e, d') \<Rightarrow>
          (format_response (now rt 0) (Records []) False
             (''Error querying by date range: '' @ str_exn e) None, d'))"

subsection \<open>\<^verbatim>\<open>get_data_summary\<close>\<close>

text \<open>
  The aggregates of SQL skip NULL: the minimum, maximum and average of no value are
  NULL, and \<^verbatim>\<open>COUNT(DISTINCT c)\<close> counts the distinct values that are not NULL.
\<close>

definition non_null :: "'a option list \<Rightarrow> 'a list" where
  "non_null vs = List.map_filter (\<lambda>v. v) vs"

definition sql_min :: "('a::linorder) option list \<Rightarrow> 'a option" where
  "sql_min vs = (case non_null vs of [] \<Rightarrow> None | x # xs \<Rightarrow> Some (fold min xs x))"

definition sql_max :: "('a::linorder) option list \<Rightarrow> 'a option" where
  "sql_max vs = (case non_null vs of [] \<Rightarrow> None | x # xs \<Rightarrow> Some (fold max xs x))"

definition sql_avg :: "real option list \<Rightarrow> real option" where
  "sql_avg vs =
     (case non_null vs of [] \<Rightarrow> None | x # xs \<Rightarrow> Some (sum_list (x # xs) / real (length (x # xs))))"

definition count_distinct :: "'a option list \<Rightarrow> nat" where
  "count_distinct vs = length (remdups (non_null vs))"

text \<open>
  The one row the first query returns, its fields in the order of the SELECT list
  (\<^verbatim>\<open>summary_row[0]\<close> to \<^verbatim>\<open>summary_row[10]\<close>).
\<close>

record summary_row =
  agg_total_records :: nat
  agg_min_latitude :: "real option"
  agg_max_latitude :: "real option"
  agg_min_longitude :: "real option"
  agg_max_longitude :: "real option"
  agg_earliest_date :: "string option"
  agg_latest_date :: "string option"
  agg_avg_mld :: "real option"
  agg_min_mld :: "real option"
  agg_max_mld :: "real option"
  agg_unique_dates :: nat

text \<open>The rows the first query aggregates: \<^verbatim>\<open>WHERE mld IS NOT NULL\<close>.\<close>

definition mld_rows :: "row list \<Rightarrow> row list" where
  "mld_rows rs = filter (\<lambda>r. mld r \<noteq> None) rs"

definition summary_sem :: "row list \<Rightarrow> exn + summary_row" where
  "summary_sem rs =
     (let ms = mld_rows rs in
      Inr \<lparr>agg_total_records = length ms,
           agg_min_latitude = sql_min (map lat ms),
           agg_max_latitude = sql_max (map lat ms),
           agg_min_longitude = sql_min (map lon ms),
           agg_max_longitude = sql_max (map lon ms),
           agg_earliest_date = sql_min (map datetime ms),
           agg_latest_date = sql_max (map datetime ms),
           agg_avg_mld = sql_avg (map mld ms),
           agg_min_mld = sql_min (map mld ms),
           agg_max_mld = sql_max (map mld ms),
           agg_unique_dates = count_distinct (map datetime ms)\<rparr>)"

text \<open>\<^verbatim>\<open>conn.execute(text(summary_query))\<close>, read with \<^verbatim>\<open>fetchone()\<close>.\<close>

definition execute_summary :: "db \<Rightarrow> string \<Rightarrow> (exn + summary_row) \<times> db" where
  "execute_summary d t = run d ThroughText (SelectSummary t) t summary_sem"

text \<open>
  The second query groups every row of the table by the year and month of
  \<^verbatim>\<open>datetime::date\<close>. The cast of NULL is NULL (one group of its own, ordered last);
  text the server cannot read as a date fails the statement.
\<close>

definition group_key :: "db \<Rightarrow> row \<Rightarrow> exn + (int \<times> int) option" where
  "group_key d r =
     (case datetime r of
        None \<Rightarrow> Inr None
      | Some s \<Rightarrow>
          (case pg_date d s of
             None \<Rightarrow> Inl (ProgrammingError (''invalid input syntax for type date: '' @ s))
           | Some (Date y m dd) \<Rightarrow> Inr (Some (y, m))))"

fun collect :: "(exn + 'a) list \<Rightarrow> exn + 'a list" where
  "collect [] = Inr []"
| "collect (x # xs) =
     (case x of
        Inl e \<Rightarrow> Inl e
      | Inr v \<Rightarrow> (case collect xs of Inl e \<Rightarrow> Inl e | Inr vs \<Rightarrow> Inr (v # vs)))"

type_synonym month_group = "(int \<times> int) option \<times> nat"

definition temporal_sem :: "db \<Rightarrow> row list \<Rightarrow> exn + month_group list" where
  "temporal_sem d rs =
     (case collect (map (group_key d) rs) of
        Inl e \<Rightarrow> Inl e
      | Inr ks \<Rightarrow>
          Inr (take 12 (map (\<lambda>k. (k, count_list ks k)) (sort_by null_last_le (remdups ks)))))"

text \<open>
  \<^verbatim>\<open>pd.read_sql(temporal_query, conn)\<close>: the probe, then the string as it is. It has
  no named parameter (\<^verbatim>\<open>::date\<close> is a cast), so the server evaluates it.
\<close>

definition read_sql_temporal :: "db \<Rightarrow> string \<Rightarrow> (exn + month_group list) \<times> db" where
  "read_sql_temporal d t =
     run (table_probe d (SelectTemporal t)) PlainString (SelectTemporal t) t (temporal_sem d)"

definition temporal_record :: "month_group list \<Rightarrow> month_group \<Rightarrow> pyrecord" where
  "temporal_record gs g =
     (case g of
        (k, n) \<Rightarrow>
          [(''year'', num_cell (list_ex (\<lambda>g'. fst g' \<noteq> None) gs)
                       (map_option (\<lambda>ym. real_of_int (fst ym)) k)),
           (''month'', num_cell (list_ex (\<lambda>g'. fst g' \<noteq> None) gs)
                        (map_option (\<lambda>ym. real_of_int (snd ym)) k)),
           (''record_count'', PyNum (real n))])"

definition temporal_to_dict_records :: "month_group list \<Rightarrow> pyrecord list" where
  "temporal_to_dict_records gs = map (temporal_record gs) gs"

text \<open>
  Truth of a value in \<^verbatim>\<open>x if summary_row[i] else y\<close>: \<^verbatim>\<open>None\<close>, zero and
  the empty string are false.
\<close>

definition int_if_true :: "nat \<Rightarrow> int" where
  "int_if_true n = (if n \<noteq> 0 then int n else 0)"

definition float_if_true :: "real option \<Rightarrow> real option" where
  "float_if_true v = (case v of None \<Rightarrow> None | Some x \<Rightarrow> if x \<noteq> 0 then Some x else None)"

definition str_if_true :: "string option \<Rightarrow> string option" where
  "str_if_true v = (case v of None \<Rightarrow> None | Some s \<Rightarrow> if s \<noteq> [] then Some s else None)"

definition summary_of :: "summary_row \<Rightarrow> month_group list \<Rightarrow> summary_data" where
  "summary_of summary_row temporal_df =
     \<lparr>total_records = int_if_true (agg_total_records summary_row),
      unique_dates = int_if_true (agg_unique_dates summary_row),
      date_earliest = str_if_true (agg_earliest_date summary_row),
      date_latest = str_if_true (agg_latest_date summary_row),
      latitude_min = float_if_true (agg_min_latitude summary_row),
      latitude_max = float_if_true (agg_max_latitude summary_row),
      longitude_min = float_if_true (agg_min_longitude summary_row),
      longitude_max = float_if_true (agg_max_longitude summary_row),
      mld_average = float_if_true (agg_avg_mld summary_row),
      mld_minimum = float_if_true (agg_min_mld summary_row),
      mld_maximum = float_if_true (agg_max_mld summary_row),
      temporal_distribution = temporal_to_dict_records temporal_df\<rparr>"

definition get_data_summary_try ::
  "runtime \<Rightarrow> query_service \<Rightarrow> db \<Rightarrow> (exn + envelope) \<times> db" where
  "get_data_summary_try rt self d =
     (case connect d of
        Inl e \<Rightarrow> (Inl e, d)
      | Inr _ \<Rightarrow>
          (case execute_summary d (table_name self) of
             (Inl e, d1) \<Rightarrow> (Inl e, d1)
           | (Inr summary_row, d1) \<Rightarrow>
               (case read_sql_temporal d1 (table_name self) of
                  (Inl e, d2) \<Rightarrow> (Inl e, d2)
                | (Inr temporal_df, d2) \<Rightarrow>
                    (let summary = summary_of summary_row temporal_df;
                         meta = SummaryMeta (now rt 0) (table_name self)
                     in (Inr (format_response (now rt 1) (Summary summary) True
                                ''Dataset summary generated successfully'' (Some meta)), d2)))))"

definition get_data_summary ::
  "runtime \<Rightarrow> query_service \<Rightarrow> db \<Rightarrow> envelope \<times> db" where
  "get_data_summary rt self d =
     (case get_data_summary_try rt self d of
        (Inr response, d') \<Rightarrow> (response, d')
      | (Inl e, d') \<Rightarrow>
          (format_response (now rt 0) EmptyDict False
             (''Error generating data summary: '' @ str_exn e) None, d'))"

subsection \<open>Construction\<close>

text \<open>
  \<^verbatim>\<open>_connect\<close> opens a connection and sends \<^verbatim>\<open>SELECT 1\<close>; whatever fails is raised
  again as the module's own error. \<^verbatim>\<open>__init__\<close> does nothing else, so a service
  exists only when the probe passed.
\<close>

definition execute_select1 :: "db \<Rightarrow> (exn + unit) \<times> db" where
  "execute_select1 d =
     ((case fault d Select1 of Some m \<Rightarrow> Inl (ProgrammingError m) | None \<Rightarrow> Inr ()),
      d\<lparr>sent := sent d @ [Select1]\<rparr>)"

definition connect_probe :: "db \<Rightarrow> (exn + unit) \<times> db" where
  "connect_probe d =
     (case (case connect d of Inl e \<Rightarrow> (Inl e, d) | Inr _ \<Rightarrow> execute_select1 d) of
        (Inl e, d') \<Rightarrow>
          (Inl (OceanDataQueryError (''Failed to connect to database: '' @ str_exn e)), d')
      | (Inr _, d') \<Rightarrow> (Inr (), d'))"

definition new_query_service :: "db \<Rightarrow> string \<Rightarrow> (exn + query_service) \<times> db" where
  "new_query_service d t =
     (case connect_probe d of
        (Inl e, d') \<Rightarrow> (Inl e, d')
      | (Inr _, d') \<Rightarrow> (Inr \<lparr>table_name = t\<rparr>, d'))"

section \<open>The loader\<close>

text \<open>
  \<^verbatim>\<open>os.path.exists\<close> and \<^verbatim>\<open>pd.read_csv\<close> are the file system and the parser: a
  file that parses gives its data rows, one that does not gives the parser's message.
  \<^verbatim>\<open>df.to_sql(table_name, engine, if_exists='replace', index=False)\<close> opens a
  connection and replaces the table by the frame's rows.
\<close>

record files =
  path_exists :: "string \<Rightarrow> bool"
  read_csv :: "string \<Rightarrow> string + row list"

definition to_sql :: "db \<Rightarrow> string \<Rightarrow> row list \<Rightarrow> (exn + unit) \<times> db" where
  "to_sql d t df =
     (case connect d of
        Inl e \<Rightarrow> (Inl e, d)
      | Inr _ \<Rightarrow>
          (case fault d (ReplaceTable t df) of
             Some m \<Rightarrow> (Inl (ProgrammingError m), d\<lparr>sent := sent d @ [ReplaceTable t df]\<rparr>)
           | None \<Rightarrow>
               (Inr (), d\<lparr>tables := (tables d)(t \<mapsto> df),
                          sent := sent d @ [ReplaceTable t df]\<rparr>)))"

definition load_argo_data :: "files \<Rightarrow> db \<Rightarrow> string \<Rightarrow> string \<Rightarrow> bool \<times> db" where
  "load_argo_data fs d csv_file_path t =
     (if \<not> path_exists fs csv_file_path then (False, d)
      else
        (case read_csv fs csv_file_path of
           Inl m \<Rightarrow> (False, d)
         | Inr df \<Rightarrow>
             (case to_sql d t df of
                (Inl e, d') \<Rightarrow> (False, d')
              | (Inr _, d') \<Rightarrow> (True, d'))))"

section \<open>A runtime and a database for examples\<close>

text \<open>
  An instance of the runtime: dates written as four digits, a dash, two digits, a dash
  and two digits are read, everything else is refused with a message.
\<close>

definition digit_of :: "char \<Rightarrow> nat option" where
  "digit_of c =
     (if CHR ''0'' \<le> c \<and> c \<le> CHR ''9'' then Some (of_char c - of_char CHR ''0'') else None)"

fun number_of :: "nat \<Rightarrow> string \<Rightarrow> nat option" where
  "number_of acc [] = Some acc"
| "number_of acc (c # cs) =
     (case digit_of c of None \<Rightarrow> None | Some v \<Rightarrow> number_of (10 * acc + v) cs)"

definition iso_date :: "string \<Rightarrow> pydate option" where
  "iso_date s =
     (if length s < 10 \<or> s ! 4 \<noteq> CHR ''-'' \<or> s ! 7 \<noteq> CHR ''-'' then None
      else
        (case (number_of 0 (take 4 s), number_of 0 (take 2 (drop 5 s)),
               number_of 0 (take 2 (drop 8 s))) of
           (Some y, Some m, Some dd) \<Rightarrow>
             if 1 \<le> y \<and> 1 \<le> m \<and> m \<le> 12 \<and> 1 \<le> dd \<and> dd \<le> 31
             then Some (Date (int y) (int m) (int dd)) else None
         | _ \<Rightarrow> None))"

definition example_strptime :: "string \<Rightarrow> string + pydate" where
  "example_strptime s =
     (case (if length s = 10 then iso_date s else None) of
        None \<Rightarrow> Inl (''time data '' @ s @ '' does not match format %Y-%m-%d'')
      | Some dt \<Rightarrow> Inr dt)"

definition pad :: "nat \<Rightarrow> string \<Rightarrow> string" where
  "pad n s = replicate (n - length s) CHR ''0'' @ s"

fun example_strftime :: "pydate \<Rightarrow> string" where
  "example_strftime (Date y m dd) =
     pad 4 (str_nat (nat y)) @ ''-'' @ pad 2 (str_nat (nat m)) @ ''-'' @ pad 2 (str_nat (nat dd))"

definition example_runtime :: runtime where
  "example_runtime =
     \<lparr>now = (\<lambda>k. ''2025-01-01T00:00:0'' @ str_nat k),
      strptime = example_strptime,
      strftime = example_strftime,
      repr_range = (\<lambda>p. ''(min, max)'')\<rparr>"

definition example_service :: query_service where
  "example_service = \<lparr>table_name = ''argo_data''\<rparr>"

text \<open>Three observations; the second has no mixed-layer depth.\<close>

definition example_rows :: "row list" where
  "example_rows =
     [\<lparr>datetime = Some ''2019-02-03 06:00:00'', lat = Some 5, lon = Some 70,
       mld = Some 40, others = [(''sst'', SNum 28)]\<rparr>,
      \<lparr>datetime = Some ''2019-01-29 12:00:00'', lat = Some (- 3), lon = Some 65,
       mld = None, others = [(''sst'', SNull)]\<rparr>,
      \<lparr>datetime = Some ''2019-01-30 00:00:00'', lat = Some 20, lon = Some 88,
       mld = Some 25, others = [(''sst'', SNum 27)]\<rparr>]"

definition database_with :: "row list \<Rightarrow> db" where
  "database_with rs =
     \<lparr>conn_error = None,
      tables = [''argo_data'' \<mapsto> rs],
      fault = (\<lambda>stmt. None),
      pg_date = iso_date,
      sent = []\<rparr>"

definition example_db :: db where
  "example_db = database_with example_rows"

text \<open>A database no connection can be opened to.\<close>

definition unreachable_db :: db where
  "unreachable_db = (database_with example_rows)\<lparr>conn_error := Some ''connection refused''\<rparr>"

text \<open>One observation on the equator.\<close>

definition equator_rows :: "row list" where
  "equator_rows =
     [\<lparr>datetime = Some ''2019-01-29 12:00:00'', lat = Some 0, lon = Some 73,
       mld = Some 42, others = []\<rparr>]"

text \<open>One observation with a mixed-layer depth and no latitude.\<close>

definition uncharted_rows :: "row list" where
  "uncharted_rows =
     [\<lparr>datetime = Some ''2019-01-29 12:00:00'', lat = None, lon = Some 73,
       mld = Some 42, others = []\<rparr>]"

text \<open>Two observations, the second without a timestamp.\<close>

definition undated_rows :: "row list" where
  "undated_rows =
     [\<lparr>datetime = Some ''2019-01-29 12:00:00'', lat = Some 5, lon = Some 70,
       mld = Some 40, others = []\<rparr>,
      \<lparr>datetime = None, lat = Some 6, lon = Some 71, mld = Some 41, others = []\<rparr>]"

text \<open>One observation in the middle of each of \<open>n\<close> consecutive months from January 2019.\<close>

definition monthly_rows :: "nat \<Rightarrow> row list" where
  "monthly_rows n =
     map (\<lambda>k. \<lparr>datetime = Some (str_nat (2019 + k div 12) @ ''-''
                                @ pad 2 (str_nat (k mod 12 + 1)) @ ''-15 00:00:00''),
               lat = Some 10, lon = Some 70, mld = Some 30, others = []\<rparr>)
       [0..<n]"

text \<open>A file system with one CSV file, which holds the three observations.\<close>

definition example_files :: files where
  "example_files =
     \<lparr>path_exists = (\<lambda>p. p = ''ARGO_2019.csv''),
      read_csv = (\<lambda>p. if p = ''ARGO_2019.csv'' then Inr example_rows
                        else Inl ''No such file or directory'')\<rparr>"

section \<open>Reading arguments and returned records\<close>





text \<open>The value of a numeric column of a row is a number within the range.\<close>

definition inside :: "pyfloat \<times> pyfloat \<Rightarrow> real option \<Rightarrow> bool" where
  "inside rng v =
     (case (rng, v) of
        ((Fl a, Fl b), Some x) \<Rightarrow> a \<le> x \<and> x \<le> b
      | _ \<Rightarrow> False)"


text \<open>
  The year and month of an entry of \<^verbatim>\<open>temporal_distribution\<close>, \<open>None\<close> when they
  are not numbers.
\<close>

definition year_month :: "pyrecord \<Rightarrow> (real \<times> real) option" where
  "year_month rec =
     (case (map_of rec ''year'', map_of rec ''month'') of
        (Some (PyNum y), Some (PyNum m)) \<Rightarrow> Some (y, m)
      | _ \<Rightarrow> None)"

text \<open>
  How an aggregate reaches the response: one without a value is reported as
  \<^verbatim>\<open>None\<close>, and one with a value other than \<open>zero\<close> is reported as that value.
\<close>

definition surfaced :: "'a option \<Rightarrow> 'a \<Rightarrow> 'a option \<Rightarrow> bool" where
  "surfaced aggregate zero field =
     (case aggregate of None \<Rightarrow> field = None | Some x \<Rightarrow> x = zero \<or> field = Some x)"

text \<open>No field of the record holds NaN.\<close>

definition nan_free :: "pyrecord \<Rightarrow> bool" where
  "nan_free rec = list_all (\<lambda>kv. snd kv \<noteq> PyNaN) rec"

section \<open>Sorting, and what the server makes of a row-returning statement\<close>

lemma set_insert_by: "set (insert_by le x xs) = insert x (set xs)"
  by (induction xs) auto

lemma set_sort_by: "set (sort_by le xs) = set xs"
  unfolding sort_by_def by (induction xs) (simp_all add: set_insert_by)

lemma length_insert_by: "length (insert_by le x xs) = Suc (length xs)"
  by (induction xs) auto

lemma length_sort_by: "length (sort_by le xs) = length xs"
  unfolding sort_by_def by (induction xs) (simp_all add: length_insert_by)

lemma sorted_insert_by:
  assumes total: "\<And>a b. le a b \<or> le b a"
    and trans: "\<And>a b c. le a b \<Longrightarrow> le b c \<Longrightarrow> le a c"
    and sorted: "sorted_wrt le xs"
  shows "sorted_wrt le (insert_by le x xs)"
  using sorted
proof (induction xs)
  case Nil
  then show ?case by simp
next
  case (Cons y ys)
  show ?case
  proof (cases "le x y")
    case True
    with Cons.prems trans show ?thesis by auto
  next
    case False
    with total have "le y x" by blast
    with False Cons show ?thesis by (auto simp: set_insert_by)
  qed
qed

lemma sorted_sort_by:
  assumes "\<And>a b. le a b \<or> le b a" and "\<And>a b c. le a b \<Longrightarrow> le b c \<Longrightarrow> le a c"
  shows "sorted_wrt le (sort_by le xs)"
  unfolding sort_by_def
  by (induction xs) (simp_all add: sorted_insert_by [OF assms])

lemma null_last_le_total: "null_last_le a b \<or> null_last_le b a"
  by (cases a; cases b) auto

lemma null_last_le_trans: "null_last_le a b \<Longrightarrow> null_last_le b c \<Longrightarrow> null_last_le a c"
  by (cases a; cases b; cases c) auto




section \<open>The three row-returning operations never get their rows\<close>

lemma named_parameters_rows: "named_parameters (SelectRows q) \<noteq> []"
  by simp

lemma read_sql_rejected:
  "\<exists>m. read_sql d q
     = (Inl (ProgrammingError m),
        d\<lparr>sent := sent d @ [TableProbe (SelectRows q), SelectRows q]\<rparr>)"
  by (simp add: read_sql_def run_def table_probe_def split: option.splits)

lemma format_response_success: "success (format_response c dat ok msg meta) = ok"
  by (simp add: format_response_def)

lemma format_response_data: "data (format_response c dat ok msg meta) = dat"
  by (simp add: format_response_def)

lemma get_sample_data_try_raises:
  "\<exists>e. fst (get_sample_data_try rt self d limit) = Inl e"
proof -
  obtain e where "read_sql d (sample_query (table_name self) limit)
      = (Inl e, d\<lparr>sent := sent d @ [TableProbe (SelectRows (sample_query (table_name self) limit)),
          SelectRows (sample_query (table_name self) limit)]\<rparr>)"
    using read_sql_rejected by blast
  then show ?thesis
    by (cases "limit \<le> 0 \<or> limit > 1000"; cases "connect d")
      (simp_all add: get_sample_data_try_def)
qed

lemma query_by_location_try_raises:
  "\<exists>e. fst (query_by_location_try rt self d lat_range lon_range limit) = Inl e"
proof -
  obtain e where "read_sql d (location_query (table_name self) lat_range lon_range limit)
      = (Inl e, d\<lparr>sent := sent d @
          [TableProbe (SelectRows (location_query (table_name self) lat_range lon_range limit)),
           SelectRows (location_query (table_name self) lat_range lon_range limit)]\<rparr>)"
    using read_sql_rejected by blast
  then show ?thesis
    by (cases "validate_coordinates rt (Some lat_range) (Some lon_range)";
        cases "limit \<le> 0 \<or> limit > 10000"; cases "connect d")
      (simp_all add: query_by_location_try_def)
qed

lemma query_by_date_range_try_raises:
  "\<exists>e. fst (query_by_date_range_try rt self d start_date end_date limit) = Inl e"
proof (cases "validate_dates rt start_date end_date")
  case (Inl e)
  then show ?thesis
    by (simp add: query_by_date_range_try_def)
next
  case (Inr strs)
  obtain start_str end_str where strs: "strs = (start_str, end_str)"
    by (cases strs)
  obtain e where "read_sql d (date_range_query (table_name self) start_str end_str limit)
      = (Inl e, d\<lparr>sent := sent d @
          [TableProbe (SelectRows (date_range_query (table_name self) start_str end_str limit)),
           SelectRows (date_range_query (table_name self) start_str end_str limit)]\<rparr>)"
    using read_sql_rejected by blast
  with Inr strs show ?thesis
    by (cases "limit \<le> 0 \<or> limit > 10000"; cases "connect d")
      (simp_all add: query_by_date_range_try_def)
qed

text \<open>
  Hence each of the three returns its error envelope, with no record, for every
  argument and every state of the database.
\<close>

lemma get_sample_data_fails:
  "\<not> success (fst (get_sample_data rt self d limit))
   \<and> data (fst (get_sample_data rt self d limit)) = Records []"
proof -
  obtain e where "fst (get_sample_data_try rt self d limit) = Inl e"
    using get_sample_data_try_raises by blast
  then show ?thesis
    by (cases "get_sample_data_try rt self d limit")
      (simp add: get_sample_data_def format_response_def)
qed

lemma query_by_location_fails:
  "\<not> success (fst (query_by_location rt self d lat_range lon_range limit))
   \<and> data (fst (query_by_location rt self d lat_range lon_range limit)) = Records []"
proof -
  obtain e where "fst (query_by_location_try rt self d lat_range lon_range limit) = Inl e"
    using query_by_location_try_raises by blast
  then show ?thesis
    by (cases "query_by_location_try rt self d lat_range lon_range limit")
      (simp add: query_by_location_def format_response_def)
qed

lemma query_by_date_range_fails:
  "\<not> success (fst (query_by_date_range rt self d start_date end_date limit))
   \<and> data (fst (query_by_date_range rt self d start_date end_date limit)) = Records []"
proof -
  obtain e where "fst (query_by_date_range_try rt self d start_date end_date limit) = Inl e"
    using query_by_date_range_try_raises by blast
  then show ?thesis
    by (cases "query_by_date_range_try rt self d start_date end_date limit")
      (simp add: query_by_date_range_def format_response_def)
qed



lemma query_by_date_range_sent:
  assumes "validate_dates rt start_date end_date = Inr (start_str, end_str)"
    and "1 \<le> limit" and "limit \<le> 10000" and "conn_error d = None"
  shows "sent (snd (query_by_date_range rt self d start_date end_date limit))
     = sent d @ [TableProbe (SelectRows (date_range_query (table_name self) start_str end_str limit)),
                 SelectRows (date_range_query (table_name self) start_str end_str limit)]"
proof -
  obtain e where "read_sql d (date_range_query (table_name self) start_str end_str limit)
      = (Inl e, d\<lparr>sent := sent d @
          [TableProbe (SelectRows (date_range_query (table_name self) start_str end_str limit)),
           SelectRows (date_range_query (table_name self) start_str end_str limit)]\<rparr>)"
    using read_sql_rejected by blast
  with assms show ?thesis
    by (simp add: query_by_date_range_def query_by_date_range_try_def connect_def)
qed

section \<open>The claims\<close>

lemma example_sample_result:
  "fst (get_sample_data example_runtime example_service example_db 2)
   = \<lparr>success = False, timestamp = ''2025-01-01T00:00:00'',
      message = ''Error retrieving sample data: syntax error at or near :'',
      data = Records [], metadata = None\<rparr>"
  by code_simp

text \<open>
  C4. For every limit outside 1..1000, \<^verbatim>\<open>get_sample_data\<close> returns an envelope
  with \<open>success = False\<close> and \<open>data = []\<close>. For every limit inside, the limit check
  raises nothing (the body never raises the module's error) and the returned list has
  at most \<open>limit\<close> records. The list is in fact empty: the statement goes to the
  server with \<^verbatim>\<open>:limit\<close> unbound and is refused.
\<close>

theorem get_sample_data_limit:
  "(limit < 1 \<or> 1000 < limit \<longrightarrow>
      success (fst (get_sample_data rt self d limit)) = False
      \<and> data (fst (get_sample_data rt self d limit)) = Records [])
   \<and> (1 \<le> limit \<and> limit \<le> 1000 \<longrightarrow>
        (\<forall>m. fst (get_sample_data_try rt self d limit) \<noteq> Inl (OceanDataQueryError m))
        \<and> (\<exists>records. data (fst (get_sample_data rt self d limit)) = Records records
               \<and> int (length records) \<le> limit))"
proof (intro conjI impI)
  assume "limit < 1 \<or> 1000 < limit"
  then show "success (fst (get_sample_data rt self d limit)) = False"
    and "data (fst (get_sample_data rt self d limit)) = Records []"
    by (auto simp: get_sample_data_def get_sample_data_try_def format_response_def)
next
  assume range: "1 \<le> limit \<and> limit \<le> 1000"
  obtain m' where "read_sql d (sample_query (table_name self) limit)
      = (Inl (ProgrammingError m'),
         d\<lparr>sent := sent d @ [TableProbe (SelectRows (sample_query (table_name self) limit)),
           SelectRows (sample_query (table_name self) limit)]\<rparr>)"
    using read_sql_rejected by blast
  with range
  show "\<forall>m. fst (get_sample_data_try rt self d limit) \<noteq> Inl (OceanDataQueryError m)"
    by (cases "conn_error d") (simp_all add: get_sample_data_try_def connect_def)
  from range get_sample_data_fails [of rt self d limit]
  show "\<exists>records. data (fst (get_sample_data rt self d limit)) = Records records
      \<and> int (length records) \<le> limit"
    by simp
qed

text \<open>
  C4 at the limits 0 and 2 on the example database: the first is refused by the check,
  the second passes it and returns the server's refusal with no record.
\<close>

theorem get_sample_data_limit_witness:
  "(0::int) < 1
   \<and> success (fst (get_sample_data example_runtime example_service example_db 0)) = False
   \<and> data (fst (get_sample_data example_runtime example_service example_db 0)) = Records []
   \<and> (1::int) \<le> 2 \<and> (2::int) \<le> 1000
   \<and> (\<forall>m. fst (get_sample_data_try example_runtime example_service example_db 2)
          \<noteq> Inl (OceanDataQueryError m))
   \<and> (\<exists>records. data (fst (get_sample_data example_runtime example_service example_db 2))
          = Records records \<and> int (length records) \<le> 2)
   \<and> fst (get_sample_data example_runtime example_service example_db 2)
       = \<lparr>success = False, timestamp = ''2025-01-01T00:00:00'',
          message = ''Error retrieving sample data: syntax error at or near :'',
          data = Records [], metadata = None\<rparr>"
proof -
  note at_0 = get_sample_data_limit [where limit = 0 and rt = example_runtime
      and self = example_service and d = example_db]
  note at_2 = get_sample_data_limit [where limit = 2 and rt = example_runtime
      and self = example_service and d = example_db]
  have low: "(0::int) < 1 \<or> 1000 < (0::int)" and inside: "(1::int) \<le> 2 \<and> (2::int) \<le> 1000"
    by simp_all
  note refused = at_0 [THEN conjunct1, THEN mp, OF low]
  note passed = at_2 [THEN conjunct2, THEN mp, OF inside]
  show ?thesis
    by (intro conjI refused [THEN conjunct1] refused [THEN conjunct2]
        passed [THEN conjunct1] passed [THEN conjunct2] example_sample_result) simp_all
qed










lemma example_date_range_result:
  "fst (query_by_date_range example_runtime example_service example_db
          (DStr ''2019-01-29'') (DObj (Date 2019 1 30)) 5)
   = \<lparr>success = False, timestamp = ''2025-01-01T00:00:00'',
      message = ''Error querying by date range: syntax error at or near :'',
      data = Records [], metadata = None\<rparr>"
  by code_simp





lemma date_gt_irrefl: "\<not> date_gt a a"
  by (cases a) simp

lemma validate_dates_accepts:
  assumes "date_and_text rt start_date = Inr (a, start_str)"
    and "date_and_text rt end_date = Inr (b, end_str)"
    and "\<not> date_gt a b"
  shows "validate_dates rt start_date end_date = Inr (start_str, end_str)"
  using assms by (simp add: validate_dates_def validate_dates_try_def)

lemma validate_dates_order:
  assumes "date_and_text rt start_date = Inr (a, start_str)"
    and "date_and_text rt end_date = Inr (b, end_str)"
    and "date_gt a b"
  shows "validate_dates rt start_date end_date
     = Inl (OceanDataQueryError
         (''Start date '' @ start_str @ '' must be before end date '' @ end_str))"
  using assms by (simp add: validate_dates_def validate_dates_try_def)

lemma validate_dates_start_format:
  assumes "strptime rt s = Inl m"
  shows "validate_dates rt (DStr s) end_date
     = Inl (OceanDataQueryError (''Invalid date format: '' @ m))"
  using assms by (simp add: validate_dates_def validate_dates_try_def date_and_text_def)

lemma validate_dates_end_format:
  assumes "date_and_text rt start_date = Inr (a, start_str)" and "strptime rt s = Inl m"
  shows "validate_dates rt start_date (DStr s)
     = Inl (OceanDataQueryError (''Invalid date format: '' @ m))"
  using assms by (simp add: validate_dates_def validate_dates_try_def date_and_text_def)

lemma query_by_date_range_invalid:
  assumes "validate_dates rt start_date end_date = Inl e"
  shows "fst (query_by_date_range rt self d start_date end_date limit)
     = \<lparr>success = False, timestamp = now rt 0,
        message = ''Error querying by date range: '' @ str_exn e,
        data = Records [], metadata = None\<rparr>"
  using assms
  by (simp add: query_by_date_range_def query_by_date_range_try_def format_response_def)

lemma example_dates:
  "example_strptime ''2019-01-29'' = Inr (Date 2019 1 29)"
  "example_strptime ''2019-01-30'' = Inr (Date 2019 1 30)"
  "example_strptime ''2019/01/29''
     = Inl ''time data 2019/01/29 does not match format %Y-%m-%d''"
  "example_strftime (Date 2019 1 29) = ''2019-01-29''"
  "example_strftime (Date 2019 1 30) = ''2019-01-30''"
  by code_simp+

text \<open>
  C5. Whenever the start date is later than the end date, \<^verbatim>\<open>query_by_date_range\<close>
  returns \<open>success = False\<close>; equal dates pass the validation. Whenever the start
  string, or the end string after a start that was read, does not parse, it returns
  \<open>success = False\<close> with the message \<^verbatim>\<open>Invalid date format:\<close> followed by the parser's
  own text. Strings and date objects are both accepted, in any combination: arguments
  that are read and in order pass the validation, and with a limit in 1..10000 and an
  open connection the operation goes on to send its statement with the two dates as
  text. (The server then refuses that statement, whose parameters arrive unbound.)
\<close>

theorem query_by_date_range_validation:
  "(date_and_text rt start_date = Inr (a, start_str)
      \<and> date_and_text rt end_date = Inr (b, end_str) \<and> date_gt a b \<longrightarrow>
        success (fst (query_by_date_range rt self d start_date end_date limit)) = False)
   \<and> (date_and_text rt start_date = Inr (a, start_str)
      \<and> date_and_text rt end_date = Inr (a, end_str) \<longrightarrow>
        validate_dates rt start_date end_date = Inr (start_str, end_str))
   \<and> (strptime rt s = Inl m \<longrightarrow>
        success (fst (query_by_date_range rt self d (DStr s) end_date limit)) = False
        \<and> message (fst (query_by_date_range rt self d (DStr s) end_date limit))
            = ''Error querying by date range: Invalid date format: '' @ m)
   \<and> (date_and_text rt start_date = Inr (a, start_str) \<and> strptime rt s = Inl m \<longrightarrow>
        success (fst (query_by_date_range rt self d start_date (DStr s) limit)) = False
        \<and> message (fst (query_by_date_range rt self d start_date (DStr s) limit))
            = ''Error querying by date range: Invalid date format: '' @ m)
   \<and> date_and_text rt (DObj a) = Inr (a, strftime rt a)
   \<and> (strptime rt s = Inr a \<longrightarrow> date_and_text rt (DStr s) = Inr (a, s))
   \<and> (date_and_text rt start_date = Inr (a, start_str)
      \<and> date_and_text rt end_date = Inr (b, end_str) \<and> \<not> date_gt a b \<longrightarrow>
        validate_dates rt start_date end_date = Inr (start_str, end_str)
        \<and> (1 \<le> limit \<and> limit \<le> 10000 \<and> conn_error d = None \<longrightarrow>
             sent (snd (query_by_date_range rt self d start_date end_date limit))
               = sent d @ [TableProbe (SelectRows
                             (date_range_query (table_name self) start_str end_str limit)),
                           SelectRows
                             (date_range_query (table_name self) start_str end_str limit)]))"
proof (intro conjI impI)
  assume "date_and_text rt start_date = Inr (a, start_str)
      \<and> date_and_text rt end_date = Inr (b, end_str) \<and> date_gt a b"
  then show "success (fst (query_by_date_range rt self d start_date end_date limit)) = False"
    by (simp add: validate_dates_order query_by_date_range_invalid)
next
  assume "date_and_text rt start_date = Inr (a, start_str)
      \<and> date_and_text rt end_date = Inr (a, end_str)"
  then show "validate_dates rt start_date end_date = Inr (start_str, end_str)"
    by (simp add: validate_dates_accepts date_gt_irrefl)
next
  assume "strptime rt s = Inl m"
  then show "success (fst (query_by_date_range rt self d (DStr s) end_date limit)) = False"
    and "message (fst (query_by_date_range rt self d (DStr s) end_date limit))
            = ''Error querying by date range: Invalid date format: '' @ m"
    by (simp_all add: validate_dates_start_format query_by_date_range_invalid)
next
  assume "date_and_text rt start_date = Inr (a, start_str) \<and> strptime rt s = Inl m"
  then show "success (fst (query_by_date_range rt self d start_date (DStr s) limit)) = False"
    and "message (fst (query_by_date_range rt self d start_date (DStr s) limit))
            = ''Error querying by date range: Invalid date format: '' @ m"
    by (simp_all add: validate_dates_end_format query_by_date_range_invalid)
next
  show "date_and_text rt (DObj a) = Inr (a, strftime rt a)"
    by (simp add: date_and_text_def)
next
  assume "strptime rt s = Inr a"
  then show "date_and_text rt (DStr s) = Inr (a, s)"
    by (simp add: date_and_text_def)
next
  assume ok: "date_and_text rt start_date = Inr (a, start_str)
      \<and> date_and_text rt end_date = Inr (b, end_str) \<and> \<not> date_gt a b"
  then show "validate_dates rt start_date end_date = Inr (start_str, end_str)"
    by (simp add: validate_dates_accepts)
next
  assume "date_and_text rt start_date = Inr (a, start_str)
      \<and> date_and_text rt end_date = Inr (b, end_str) \<and> \<not> date_gt a b"
    and "1 \<le> limit \<and> limit \<le> 10000 \<and> conn_error d = None"
  then show "sent (snd (query_by_date_range rt self d start_date end_date limit))
      = sent d @ [TableProbe (SelectRows
                    (date_range_query (table_name self) start_str end_str limit)),
                  SelectRows (date_range_query (table_name self) start_str end_str limit)]"
    by (intro query_by_date_range_sent) (simp_all add: validate_dates_accepts)
qed

text \<open>
  C5 with the example runtime: the 30th before the 29th is refused, the same date object
  twice passes the validation, a date written with slashes is refused with the
  parser's message at either position, and a string with a date object passes the
  validation and has the statement sent.
\<close>

theorem query_by_date_range_validation_witness:
  "date_gt (Date 2019 1 30) (Date 2019 1 29)
   \<and> success (fst (query_by_date_range example_runtime example_service example_db
                     (DStr ''2019-01-30'') (DStr ''2019-01-29'') 5)) = False
   \<and> validate_dates example_runtime (DObj (Date 2019 1 29)) (DObj (Date 2019 1 29))
       = Inr (''2019-01-29'', ''2019-01-29'')
   \<and> strptime example_runtime ''2019/01/29''
       = Inl ''time data 2019/01/29 does not match format %Y-%m-%d''
   \<and> message (fst (query_by_date_range example_runtime example_service example_db
                     (DStr ''2019/01/29'') (DStr ''2019-01-30'') 5))
       = ''Error querying by date range: Invalid date format: ''
           @ ''time data 2019/01/29 does not match format %Y-%m-%d''
   \<and> message (fst (query_by_date_range example_runtime example_service example_db
                     (DObj (Date 2019 1 29)) (DStr ''2019/01/29'') 5))
       = ''Error querying by date range: Invalid date format: ''
           @ ''time data 2019/01/29 does not match format %Y-%m-%d''
   \<and> \<not> date_gt (Date 2019 1 29) (Date 2019 1 30)
   \<and> validate_dates example_runtime (DStr ''2019-01-29'') (DObj (Date 2019 1 30))
       = Inr (''2019-01-29'', ''2019-01-30'')
   \<and> sent (snd (query_by_date_range example_runtime example_service example_db
                  (DStr ''2019-01-29'') (DObj (Date 2019 1 30)) 5))
       = [TableProbe (SelectRows (date_range_query ''argo_data'' ''2019-01-29'' ''2019-01-30'' 5)),
          SelectRows (date_range_query ''argo_data'' ''2019-01-29'' ''2019-01-30'' 5)]
   \<and> fst (query_by_date_range example_runtime example_service example_db
            (DStr ''2019-01-29'') (DObj (Date 2019 1 30)) 5)
       = \<lparr>success = False, timestamp = ''2025-01-01T00:00:00'',
          message = ''Error querying by date range: syntax error at or near :'',
          data = Records [], metadata = None\<rparr>"
proof -
  have s29: "date_and_text example_runtime (DStr ''2019-01-29'')
      = Inr (Date 2019 1 29, ''2019-01-29'')"
    and s30: "date_and_text example_runtime (DStr ''2019-01-30'')
      = Inr (Date 2019 1 30, ''2019-01-30'')"
    and o29: "date_and_text example_runtime (DObj (Date 2019 1 29))
      = Inr (Date 2019 1 29, ''2019-01-29'')"
    and o30: "date_and_text example_runtime (DObj (Date 2019 1 30))
      = Inr (Date 2019 1 30, ''2019-01-30'')"
    and bad: "strptime example_runtime ''2019/01/29''
      = Inl ''time data 2019/01/29 does not match format %Y-%m-%d''"
    by (simp_all add: date_and_text_def example_runtime_def example_dates
        del: example_strftime.simps)
  have later: "date_gt (Date 2019 1 30) (Date 2019 1 29)"
    and order: "\<not> date_gt (Date 2019 1 29) (Date 2019 1 30)"
    by simp_all
  have database: "conn_error example_db = None"
    by (simp add: example_db_def database_with_def)
  from s30 s29 later
    query_by_date_range_validation [where rt = example_runtime
      and start_date = "DStr ''2019-01-30''" and end_date = "DStr ''2019-01-29''"
      and a = "Date 2019 1 30" and b = "Date 2019 1 29"
      and start_str = "''2019-01-30''" and end_str = "''2019-01-29''"
      and self = example_service and d = example_db and limit = 5]
  have first: "success (fst (query_by_date_range example_runtime example_service example_db
      (DStr ''2019-01-30'') (DStr ''2019-01-29'') 5)) = False"
    by blast
  from o29
    query_by_date_range_validation [where rt = example_runtime
      and start_date = "DObj (Date 2019 1 29)" and end_date = "DObj (Date 2019 1 29)"
      and a = "Date 2019 1 29" and start_str = "''2019-01-29''" and end_str = "''2019-01-29''"]
  have second: "validate_dates example_runtime (DObj (Date 2019 1 29)) (DObj (Date 2019 1 29))
      = Inr (''2019-01-29'', ''2019-01-29'')"
    by blast
  from bad
    query_by_date_range_validation [where rt = example_runtime and s = "''2019/01/29''"
      and m = "''time data 2019/01/29 does not match format %Y-%m-%d''"
      and end_date = "DStr ''2019-01-30''"
      and self = example_service and d = example_db and limit = 5]
  have third: "message (fst (query_by_date_range example_runtime example_service example_db
      (DStr ''2019/01/29'') (DStr ''2019-01-30'') 5))
      = ''Error querying by date range: Invalid date format: ''
          @ ''time data 2019/01/29 does not match format %Y-%m-%d''"
    by blast
  from o29 bad
    query_by_date_range_validation [where rt = example_runtime and s = "''2019/01/29''"
      and m = "''time data 2019/01/29 does not match format %Y-%m-%d''"
      and start_date = "DObj (Date 2019 1 29)" and a = "Date 2019 1 29"
      and start_str = "''2019-01-29''"
      and self = example_service and d = example_db and limit = 5]
  have fourth: "message (fst (query_by_date_range example_runtime example_service example_db
      (DObj (Date 2019 1 29)) (DStr ''2019/01/29'') 5))
      = ''Error querying by date range: Invalid date format: ''
          @ ''time data 2019/01/29 does not match format %Y-%m-%d''"
    by blast
  note mixed = query_by_date_range_validation [where rt = example_runtime
      and start_date = "DStr ''2019-01-29''" and end_date = "DObj (Date 2019 1 30)"
      and a = "Date 2019 1 29" and b = "Date 2019 1 30"
      and start_str = "''2019-01-29''" and end_str = "''2019-01-30''"
      and self = example_service and d = example_db and limit = 5]
  from s29 o30 order
  have "date_and_text example_runtime (DStr ''2019-01-29'') = Inr (Date 2019 1 29, ''2019-01-29'')
      \<and> date_and_text example_runtime (DObj (Date 2019 1 30))
          = Inr (Date 2019 1 30, ''2019-01-30'')
      \<and> \<not> date_gt (Date 2019 1 29) (Date 2019 1 30)"
    by (intro conjI)
  note accepted = mixed [THEN conjunct2, THEN conjunct2, THEN conjunct2, THEN conjunct2,
      THEN conjunct2, THEN conjunct2, THEN mp, OF this]
  from database have "(1::int) \<le> 5 \<and> (5::int) \<le> 10000 \<and> conn_error example_db = None"
    by simp
  from accepted [THEN conjunct2, THEN mp, OF this]
  have fifth: "sent (snd (query_by_date_range example_runtime example_service example_db
      (DStr ''2019-01-29'') (DObj (Date 2019 1 30)) 5))
      = [TableProbe (SelectRows (date_range_query ''argo_data'' ''2019-01-29'' ''2019-01-30'' 5)),
         SelectRows (date_range_query ''argo_data'' ''2019-01-29'' ''2019-01-30'' 5)]"
    by (simp add: example_db_def database_with_def example_service_def)
  from later first second bad third fourth order accepted [THEN conjunct1] fifth
    example_date_range_result
  show ?thesis
    by (intro conjI)
qed

lemma get_sample_data_try_success:
  assumes "fst (get_sample_data_try rt self d limit) = Inr r"
  shows "success r"
  using assms get_sample_data_try_raises [of rt self d limit] by auto

lemma query_by_location_try_success:
  assumes "fst (query_by_location_try rt self d lat_range lon_range limit) = Inr r"
  shows "success r"
  using assms query_by_location_try_raises [of rt self d lat_range lon_range limit] by auto

lemma query_by_date_range_try_success:
  assumes "fst (query_by_date_range_try rt self d start_date end_date limit) = Inr r"
  shows "success r"
  using assms query_by_date_range_try_raises [of rt self d start_date end_date limit] by auto

lemma get_data_count_try_success:
  assumes "fst (get_data_count_try rt self d) = Inr r"
  shows "success r"
proof -
  obtain res d' where "execute_count d (table_name self) = (res, d')"
    by (cases "execute_count d (table_name self)")
  with assms show ?thesis
    by (cases "connect d"; cases res)
      (auto simp: get_data_count_try_def format_response_success)
qed

lemma get_data_summary_try_success:
  assumes "fst (get_data_summary_try rt self d) = Inr r"
  shows "success r"
proof -
  obtain res d1 where first: "execute_summary d (table_name self) = (res, d1)"
    by (cases "execute_summary d (table_name self)")
  obtain res' d2 where "read_sql_temporal d1 (table_name self) = (res', d2)"
    by (cases "read_sql_temporal d1 (table_name self)")
  with assms first show ?thesis
    by (cases "connect d"; cases res; cases res')
      (auto simp: get_data_summary_try_def Let_def format_response_success)
qed

lemma connect_refused: "conn_error d = Some m \<Longrightarrow> connect d = Inl (OperationalError m)"
  by (simp add: connect_def)

lemma get_sample_data_refused:
  assumes "conn_error d = Some m"
  shows "\<not> success (fst (get_sample_data rt self d limit))"
  by (simp add: get_sample_data_fails)

lemma query_by_location_refused:
  assumes "conn_error d = Some m"
  shows "\<not> success (fst (query_by_location rt self d lat_range lon_range limit))"
  by (simp add: query_by_location_fails)

lemma query_by_date_range_refused:
  assumes "conn_error d = Some m"
  shows "\<not> success (fst (query_by_date_range rt self d start_date end_date limit))"
  by (simp add: query_by_date_range_fails)

lemma get_data_count_refused:
  assumes "conn_error d = Some m"
  shows "\<not> success (fst (get_data_count rt self d))"
  using assms
  by (simp add: get_data_count_def get_data_count_try_def connect_refused
      format_response_success)

lemma get_data_summary_refused:
  assumes "conn_error d = Some m"
  shows "\<not> success (fst (get_data_summary rt self d))"
  using assms
  by (simp add: get_data_summary_def get_data_summary_try_def connect_refused
      format_response_success)

lemma new_query_service_probe:
  "(conn_error d = Some m \<longrightarrow>
      fst (new_query_service d t)
        = Inl (OceanDataQueryError (''Failed to connect to database: '' @ m)))
   \<and> (conn_error d = None \<and> fault d Select1 = Some m \<longrightarrow>
        fst (new_query_service d t)
          = Inl (OceanDataQueryError (''Failed to connect to database: '' @ m)))
   \<and> (conn_error d = None \<and> fault d Select1 = None \<longrightarrow>
        fst (new_query_service d t) = Inr \<lparr>table_name = t\<rparr>)"
  by (simp add: new_query_service_def connect_probe_def connect_def execute_select1_def)

text \<open>
  C1. Each of the five operations returns an envelope for every argument and every
  state of the database. Whatever exception \<open>e\<close> is raised inside its \<^verbatim>\<open>try\<close> block,
  by a validation or by the database, the operation returns \<open>success = False\<close>, the
  empty or zeroed data of that operation, no metadata, and its own prefix followed by
  the text of \<open>e\<close> as the message; when the block returns, so does the operation, with
  \<open>success = True\<close>. A connection that cannot be opened makes each of the five fail in
  this way. Constructing the service is the one place where an error escapes: when the
  connection or the \<^verbatim>\<open>SELECT 1\<close> probe fails it raises \<open>OceanDataQueryError\<close>, and
  otherwise it returns the service.
\<close>

theorem no_exception_escapes:
  "(fst (get_sample_data_try rt self d limit) = Inl e_sample \<longrightarrow>
      fst (get_sample_data rt self d limit)
        = \<lparr>success = False, timestamp = now rt 0,
           message = ''Error retrieving sample data: '' @ str_exn e_sample,
           data = Records [], metadata = None\<rparr>)
   \<and> (fst (get_sample_data_try rt self d limit) = Inr r_sample \<longrightarrow>
        fst (get_sample_data rt self d limit) = r_sample \<and> success r_sample)
   \<and> (fst (get_data_count_try rt self d) = Inl e_count \<longrightarrow>
        fst (get_data_count rt self d)
          = \<lparr>success = False, timestamp = now rt 0,
             message = ''Error counting records: '' @ str_exn e_count,
             data = TotalRecords 0, metadata = None\<rparr>)
   \<and> (fst (get_data_count_try rt self d) = Inr r_count \<longrightarrow>
        fst (get_data_count rt self d) = r_count \<and> success r_count)
   \<and> (fst (query_by_location_try rt self d lat_range lon_range limit) = Inl e_location \<longrightarrow>
        fst (query_by_location rt self d lat_range lon_range limit)
          = \<lparr>success = False, timestamp = now rt 0,
             message = ''Error querying by location: '' @ str_exn e_location,
             data = Records [], metadata = None\<rparr>)
   \<and> (fst (query_by_location_try rt self d lat_range lon_range limit) = Inr r_location \<longrightarrow>
        fst (query_by_location rt self d lat_range lon_range limit) = r_location \<and> success r_location)
   \<and> (fst (query_by_date_range_try rt self d start_date end_date limit) = Inl e_dates \<longrightarrow>
        fst (query_by_date_range rt self d start_date end_date limit)
          = \<lparr>success = False, timestamp = now rt 0,
             message = ''Error querying by date range: '' @ str_exn e_dates,
             data = Records [], metadata = None\<rparr>)
   \<and> (fst (query_by_date_range_try rt self d start_date end_date limit) = Inr r_dates \<longrightarrow>
        fst (query_by_date_range rt self d start_date end_date limit) = r_dates \<and> success r_dates)
   \<and> (fst (get_data_summary_try rt self d) = Inl e_summary \<longrightarrow>
        fst (get_data_summary rt self d)
          = \<lparr>success = False, timestamp = now rt 0,
             message = ''Error generating data summary: '' @ str_exn e_summary,
             data = EmptyDict, metadata = None\<rparr>)
   \<and> (fst (get_data_summary_try rt self d) = Inr r_summary \<longrightarrow>
        fst (get_data_summary rt self d) = r_summary \<and> success r_summary)
   \<and> (conn_error d = Some m \<longrightarrow>
        \<not> success (fst (get_sample_data rt self d limit))
        \<and> \<not> success (fst (get_data_count rt self d))
        \<and> \<not> success (fst (query_by_location rt self d lat_range lon_range limit))
        \<and> \<not> success (fst (query_by_date_range rt self d start_date end_date limit))
        \<and> \<not> success (fst (get_data_summary rt self d))
        \<and> fst (new_query_service d t)
            = Inl (OceanDataQueryError (''Failed to connect to database: '' @ m)))
   \<and> (conn_error d = None \<and> fault d Select1 = Some m \<longrightarrow>
        fst (new_query_service d t)
          = Inl (OceanDataQueryError (''Failed to connect to database: '' @ m)))
   \<and> (conn_error d = None \<and> fault d Select1 = None \<longrightarrow>
        fst (new_query_service d t) = Inr \<lparr>table_name = t\<rparr>)"
proof (intro conjI impI)
  assume "fst (get_sample_data_try rt self d limit) = Inl e_sample"
  then show "fst (get_sample_data rt self d limit)
        = \<lparr>success = False, timestamp = now rt 0,
           message = ''Error retrieving sample data: '' @ str_exn e_sample,
           data = Records [], metadata = None\<rparr>"
    by (cases "get_sample_data_try rt self d limit")
      (simp add: get_sample_data_def format_response_def)
next
  assume r: "fst (get_sample_data_try rt self d limit) = Inr r_sample"
  then show "fst (get_sample_data rt self d limit) = r_sample"
    by (cases "get_sample_data_try rt self d limit") (simp add: get_sample_data_def)
  from r show "success r_sample"
    by (rule get_sample_data_try_success)
next
  assume "fst (get_data_count_try rt self d) = Inl e_count"
  then show "fst (get_data_count rt self d)
          = \<lparr>success = False, timestamp = now rt 0,
             message = ''Error counting records: '' @ str_exn e_count,
             data = TotalRecords 0, metadata = None\<rparr>"
    by (cases "get_data_count_try rt self d")
      (simp add: get_data_count_def format_response_def)
next
  assume r: "fst (get_data_count_try rt self d) = Inr r_count"
  then show "fst (get_data_count rt self d) = r_count"
    by (cases "get_data_count_try rt self d") (simp add: get_data_count_def)
  from r show "success r_count"
    by (rule get_data_count_try_success)
next
  assume "fst (query_by_location_try rt self d lat_range lon_range limit) = Inl e_location"
  then show "fst (query_by_location rt self d lat_range lon_range limit)
          = \<lparr>success = False, timestamp = now rt 0,
             message = ''Error querying by location: '' @ str_exn e_location,
             data = Records [], metadata = None\<rparr>"
    by (cases "query_by_location_try rt self d lat_range lon_range limit")
      (simp add: query_by_location_def format_response_def)
next
  assume r: "fst (query_by_location_try rt self d lat_range lon_range limit) = Inr r_location"
  then show "fst (query_by_location rt self d lat_range lon_range limit) = r_location"
    by (cases "query_by_location_try rt self d lat_range lon_range limit")
      (simp add: query_by_location_def)
  from r show "success r_location"
    by (rule query_by_location_try_success)
next
  assume "fst (query_by_date_range_try rt self d start_date end_date limit) = Inl e_dates"
  then show "fst (query_by_date_range rt self d start_date end_date limit)
          = \<lparr>success = False, timestamp = now rt 0,
             message = ''Error querying by date range: '' @ str_exn e_dates,
             data = Records [], metadata = None\<rparr>"
    by (cases "query_by_date_range_try rt self d start_date end_date limit")
      (simp add: query_by_date_range_def format_response_def)
next
  assume r: "fst (query_by_date_range_try rt self d start_date end_date limit) = Inr r_dates"
  then show "fst (query_by_date_range rt self d start_date end_date limit) = r_dates"
    by (cases "query_by_date_range_try rt self d start_date end_date limit")
      (simp add: query_by_date_range_def)
  from r show "success r_dates"
    by (rule query_by_date_range_try_success)
next
  assume "fst (get_data_summary_try rt self d) = Inl e_summary"
  then show "fst (get_data_summary rt self d)
          = \<lparr>success = False, timestamp = now rt 0,
             message = ''Error generating data summary: '' @ str_exn e_summary,
             data = EmptyDict, metadata = None\<rparr>"
    by (cases "get_data_summary_try rt self d")
      (simp add: get_data_summary_def format_response_def)
next
  assume r: "fst (get_data_summary_try rt self d) = Inr r_summary"
  then show "fst (get_data_summary rt self d) = r_summary"
    by (cases "get_data_summary_try rt self d") (simp add: get_data_summary_def)
  from r show "success r_summary"
    by (rule get_data_summary_try_success)
next
  assume refused: "conn_error d = Some m"
  then show "\<not> success (fst (get_sample_data rt self d limit))"
    by (rule get_sample_data_refused)
  from refused show "\<not> success (fst (get_data_count rt self d))"
    by (rule get_data_count_refused)
  from refused show "\<not> success (fst (query_by_location rt self d lat_range lon_range limit))"
    by (rule query_by_location_refused)
  from refused
  show "\<not> success (fst (query_by_date_range rt self d start_date end_date limit))"
    by (rule query_by_date_range_refused)
  from refused show "\<not> success (fst (get_data_summary rt self d))"
    by (rule get_data_summary_refused)
  from refused show "fst (new_query_service d t)
      = Inl (OceanDataQueryError (''Failed to connect to database: '' @ m))"
    by (simp add: new_query_service_probe)
next
  assume "conn_error d = None \<and> fault d Select1 = Some m"
  then show "fst (new_query_service d t)
      = Inl (OceanDataQueryError (''Failed to connect to database: '' @ m))"
    by (simp add: new_query_service_probe)
next
  assume "conn_error d = None \<and> fault d Select1 = None"
  then show "fst (new_query_service d t) = Inr \<lparr>table_name = t\<rparr>"
    by (simp add: new_query_service_probe)
qed

text \<open>
  C1 on a database that refuses connections: each of the five operations returns its
  error envelope with the driver's text, and the constructor raises. On the example
  database the count succeeds and the constructor returns the service.
\<close>

theorem no_exception_escapes_witness:
  "conn_error unreachable_db = Some ''connection refused''
   \<and> fst (get_sample_data example_runtime example_service unreachable_db 5)
       = \<lparr>success = False, timestamp = now example_runtime 0,
          message = ''Error retrieving sample data: '' @ ''connection refused'',
          data = Records [], metadata = None\<rparr>
   \<and> fst (get_data_count example_runtime example_service unreachable_db)
       = \<lparr>success = False, timestamp = now example_runtime 0,
          message = ''Error counting records: '' @ ''connection refused'',
          data = TotalRecords 0, metadata = None\<rparr>
   \<and> fst (query_by_location example_runtime example_service unreachable_db
            (Fl (- 10), Fl 10) (Fl 60, Fl 80) 5)
       = \<lparr>success = False, timestamp = now example_runtime 0,
          message = ''Error querying by location: '' @ ''connection refused'',
          data = Records [], metadata = None\<rparr>
   \<and> fst (query_by_date_range example_runtime example_service unreachable_db
            (DObj (Date 2019 1 29)) (DObj (Date 2019 1 30)) 5)
       = \<lparr>success = False, timestamp = now example_runtime 0,
          message = ''Error querying by date range: '' @ ''connection refused'',
          data = Records [], metadata = None\<rparr>
   \<and> fst (get_data_summary example_runtime example_service unreachable_db)
       = \<lparr>success = False, timestamp = now example_runtime 0,
          message = ''Error generating data summary: '' @ ''connection refused'',
          data = EmptyDict, metadata = None\<rparr>
   \<and> fst (new_query_service unreachable_db ''argo_data'')
       = Inl (OceanDataQueryError (''Failed to connect to database: '' @ ''connection refused''))
   \<and> success (fst (get_data_count example_runtime example_service example_db))
   \<and> fst (new_query_service example_db ''argo_data'') = Inr \<lparr>table_name = ''argo_data''\<rparr>"
proof -
  let ?e = "OperationalError ''connection refused''"
  have refused: "conn_error unreachable_db = Some ''connection refused''"
    by (simp add: unreachable_db_def)
  then have down: "connect unreachable_db = Inl ?e"
    by (rule connect_refused)
  have sample: "fst (get_sample_data_try example_runtime example_service unreachable_db 5)
      = Inl ?e"
    by (simp add: get_sample_data_try_def down)
  have count: "fst (get_data_count_try example_runtime example_service unreachable_db) = Inl ?e"
    by (simp add: get_data_count_try_def down)
  have location: "fst (query_by_location_try example_runtime example_service unreachable_db
      (Fl (- 10), Fl 10) (Fl 60, Fl 80) 5) = Inl ?e"
    by (simp add: query_by_location_try_def validate_coordinates_def down)
  have "validate_dates example_runtime (DObj (Date 2019 1 29)) (DObj (Date 2019 1 30))
      = Inr (strftime example_runtime (Date 2019 1 29), strftime example_runtime (Date 2019 1 30))"
    by (simp add: validate_dates_def validate_dates_try_def date_and_text_def)
  then have dates: "fst (query_by_date_range_try example_runtime example_service unreachable_db
      (DObj (Date 2019 1 29)) (DObj (Date 2019 1 30)) 5) = Inl ?e"
    by (simp add: query_by_date_range_try_def down)
  have summary: "fst (get_data_summary_try example_runtime example_service unreachable_db)
      = Inl ?e"
    by (simp add: get_data_summary_try_def down)
  note down_case = no_exception_escapes [where rt = example_runtime and self = example_service
      and d = unreachable_db and limit = 5 and lat_range = "(Fl (- 10), Fl 10)"
      and lon_range = "(Fl 60, Fl 80)" and start_date = "DObj (Date 2019 1 29)"
      and end_date = "DObj (Date 2019 1 30)" and t = "''argo_data''"
      and m = "''connection refused''"
      and e_sample = ?e and e_count = ?e and e_location = ?e and e_dates = ?e and e_summary = ?e]
  note from_count = down_case [THEN conjunct2, THEN conjunct2]
  note from_location = from_count [THEN conjunct2, THEN conjunct2]
  note from_dates = from_location [THEN conjunct2, THEN conjunct2]
  note from_summary = from_dates [THEN conjunct2, THEN conjunct2]
  note from_refused = from_summary [THEN conjunct2, THEN conjunct2]
  from down_case [THEN conjunct1, THEN mp, OF sample]
  have w_sample: "fst (get_sample_data example_runtime example_service unreachable_db 5)
       = \<lparr>success = False, timestamp = now example_runtime 0,
          message = ''Error retrieving sample data: '' @ ''connection refused'',
          data = Records [], metadata = None\<rparr>"
    by simp
  from from_count [THEN conjunct1, THEN mp, OF count]
  have w_count: "fst (get_data_count example_runtime example_service unreachable_db)
       = \<lparr>success = False, timestamp = now example_runtime 0,
          message = ''Error counting records: '' @ ''connection refused'',
          data = TotalRecords 0, metadata = None\<rparr>"
    by simp
  from from_location [THEN conjunct1, THEN mp, OF location]
  have w_location: "fst (query_by_location example_runtime example_service unreachable_db
            (Fl (- 10), Fl 10) (Fl 60, Fl 80) 5)
       = \<lparr>success = False, timestamp = now example_runtime 0,
          message = ''Error querying by location: '' @ ''connection refused'',
          data = Records [], metadata = None\<rparr>"
    by simp
  from from_dates [THEN conjunct1, THEN mp, OF dates]
  have w_dates: "fst (query_by_date_range example_runtime example_service unreachable_db
            (DObj (Date 2019 1 29)) (DObj (Date 2019 1 30)) 5)
       = \<lparr>success = False, timestamp = now example_runtime 0,
          message = ''Error querying by date range: '' @ ''connection refused'',
          data = Records [], metadata = None\<rparr>"
    by simp
  from from_summary [THEN conjunct1, THEN mp, OF summary]
  have w_summary: "fst (get_data_summary example_runtime example_service unreachable_db)
       = \<lparr>success = False, timestamp = now example_runtime 0,
          message = ''Error generating data summary: '' @ ''connection refused'',
          data = EmptyDict, metadata = None\<rparr>"
    by simp
  note w_raised = from_refused [THEN conjunct1, THEN mp, OF refused, THEN conjunct2,
      THEN conjunct2, THEN conjunct2, THEN conjunct2, THEN conjunct2]
  obtain r where up: "fst (get_data_count_try example_runtime example_service example_db) = Inr r"
    by (simp add: get_data_count_try_def connect_def execute_count_def run_def example_db_def
        database_with_def example_service_def)
  have probe: "conn_error example_db = None \<and> fault example_db Select1 = None"
    by (simp add: example_db_def database_with_def)
  note up_case = no_exception_escapes [where rt = example_runtime and self = example_service
      and d = example_db and r_count = r and t = "''argo_data''"]
  note up_count = up_case [THEN conjunct2, THEN conjunct2, THEN conjunct2, THEN conjunct1,
      THEN mp, OF up]
  from up_count
  have w_counted: "success (fst (get_data_count example_runtime example_service example_db))"
    by simp
  note w_built = up_case [THEN conjunct2, THEN conjunct2, THEN conjunct2, THEN conjunct2,
      THEN conjunct2, THEN conjunct2, THEN conjunct2, THEN conjunct2, THEN conjunct2,
      THEN conjunct2, THEN conjunct2, THEN conjunct2, THEN mp, OF probe]
  show ?thesis
    by (intro conjI refused w_sample w_count w_location w_dates w_summary w_raised
        w_counted w_built)
qed

lemma to_sql_replaces:
  assumes "conn_error d = None" and "fault d (ReplaceTable t df) = None"
  shows "to_sql d t df
     = (Inr (), d\<lparr>tables := (tables d)(t \<mapsto> df), sent := sent d @ [ReplaceTable t df]\<rparr>)"
  using assms by (simp add: to_sql_def connect_def)

lemma to_sql_done:
  assumes "to_sql d t df = (Inr u, d')"
  shows "conn_error d = None \<and> fault d (ReplaceTable t df) = None"
  using assms by (auto simp: to_sql_def connect_def split: option.splits)

lemma load_argo_data_done:
  assumes "load_argo_data fs d p t = (True, d')" and "read_csv fs p = Inr rows"
  shows "conn_error d' = None \<and> tables d' t = Some rows \<and> fault d' = fault d"
proof -
  obtain res d'' where to_sql: "to_sql d t rows = (res, d'')"
    by (cases "to_sql d t rows")
  with assms obtain u where "res = Inr u" and "d'' = d'"
    by (cases res) (auto simp: load_argo_data_def split: if_splits)
  with to_sql have finished: "to_sql d t rows = (Inr u, d')"
    by simp
  from to_sql_done [OF finished] have ok: "conn_error d = None" "fault d (ReplaceTable t rows) = None"
    by simp_all
  from finished to_sql_replaces [OF ok] show ?thesis
    by (auto simp: ok)
qed

lemma get_data_count_answer:
  assumes "conn_error d = None" and "fault d (SelectCount (table_name self)) = None"
    and "tables d (table_name self) = Some rs"
  shows "success (fst (get_data_count rt self d))
     \<and> data (fst (get_data_count rt self d)) = TotalRecords (int (length rs))"
  using assms
  by (simp add: get_data_count_def get_data_count_try_def connect_def execute_count_def run_def
      format_response_def)

text \<open>
  C8. The loader returns false and leaves the database as it was when the file does not
  exist. When the file exists and parses, and the database accepts the statement, it
  returns true and the target table holds exactly the file's rows (no other table
  changes). After a load that returned true, \<^verbatim>\<open>get_data_count\<close> on that table
  succeeds with \<open>total_records\<close> equal to the number of data rows of the file, and on an
  empty table it succeeds with \<open>total_records = 0\<close>, whenever the database answers
  the count.
\<close>

theorem load_then_count:
  "(\<not> path_exists fs p \<longrightarrow> load_argo_data fs d p t = (False, d))
   \<and> (path_exists fs p \<and> read_csv fs p = Inr rows \<and> conn_error d = None
        \<and> fault d (ReplaceTable t rows) = None \<longrightarrow>
        fst (load_argo_data fs d p t) = True
        \<and> tables (snd (load_argo_data fs d p t)) = (tables d)(t \<mapsto> rows))
   \<and> (load_argo_data fs d p t = (True, d') \<and> read_csv fs p = Inr rows
        \<and> fault d' (SelectCount t) = None \<longrightarrow>
        success (fst (get_data_count rt \<lparr>table_name = t\<rparr> d'))
        \<and> data (fst (get_data_count rt \<lparr>table_name = t\<rparr> d'))
            = TotalRecords (int (length rows)))
   \<and> (conn_error d = None \<and> fault d (SelectCount (table_name self)) = None
        \<and> tables d (table_name self) = Some [] \<longrightarrow>
        success (fst (get_data_count rt self d))
        \<and> data (fst (get_data_count rt self d)) = TotalRecords 0)"
proof (intro conjI impI)
  assume "\<not> path_exists fs p"
  then show "load_argo_data fs d p t = (False, d)"
    by (simp add: load_argo_data_def)
next
  assume ok: "path_exists fs p \<and> read_csv fs p = Inr rows \<and> conn_error d = None
        \<and> fault d (ReplaceTable t rows) = None"
  then have "to_sql d t rows
     = (Inr (), d\<lparr>tables := (tables d)(t \<mapsto> rows), sent := sent d @ [ReplaceTable t rows]\<rparr>)"
    by (simp add: to_sql_replaces)
  with ok show "fst (load_argo_data fs d p t) = True"
    and "tables (snd (load_argo_data fs d p t)) = (tables d)(t \<mapsto> rows)"
    by (simp_all add: load_argo_data_def)
next
  assume loaded: "load_argo_data fs d p t = (True, d') \<and> read_csv fs p = Inr rows
        \<and> fault d' (SelectCount t) = None"
  then have "conn_error d' = None \<and> tables d' t = Some rows"
    using load_argo_data_done by blast
  with loaded
  have "success (fst (get_data_count rt \<lparr>table_name = t\<rparr> d'))
      \<and> data (fst (get_data_count rt \<lparr>table_name = t\<rparr> d')) = TotalRecords (int (length rows))"
    by (intro get_data_count_answer) simp_all
  then show "success (fst (get_data_count rt \<lparr>table_name = t\<rparr> d'))"
    and "data (fst (get_data_count rt \<lparr>table_name = t\<rparr> d'))
            = TotalRecords (int (length rows))"
    by simp_all
next
  assume empty: "conn_error d = None \<and> fault d (SelectCount (table_name self)) = None
        \<and> tables d (table_name self) = Some []"
  then have "success (fst (get_data_count rt self d))
      \<and> data (fst (get_data_count rt self d)) = TotalRecords (int (length ([] :: row list)))"
    by (intro get_data_count_answer) simp_all
  then show "success (fst (get_data_count rt self d))"
    and "data (fst (get_data_count rt self d)) = TotalRecords 0"
    by simp_all
qed

text \<open>
  C8 with the example file of three observations, loaded into a database whose table
  is empty: a missing file changes nothing, the load returns true, and the count is
  then three; on the empty table it is zero.
\<close>

theorem load_then_count_witness:
  "\<not> path_exists example_files ''missing.csv''
   \<and> load_argo_data example_files (database_with []) ''missing.csv'' ''argo_data''
       = (False, database_with [])
   \<and> path_exists example_files ''ARGO_2019.csv''
   \<and> read_csv example_files ''ARGO_2019.csv'' = Inr example_rows
   \<and> fst (load_argo_data example_files (database_with []) ''ARGO_2019.csv'' ''argo_data'')
   \<and> success (fst (get_data_count example_runtime \<lparr>table_name = ''argo_data''\<rparr>
        (snd (load_argo_data example_files (database_with []) ''ARGO_2019.csv'' ''argo_data''))))
   \<and> data (fst (get_data_count example_runtime \<lparr>table_name = ''argo_data''\<rparr>
        (snd (load_argo_data example_files (database_with []) ''ARGO_2019.csv'' ''argo_data''))))
       = TotalRecords 3
   \<and> success (fst (get_data_count example_runtime example_service (database_with [])))
   \<and> data (fst (get_data_count example_runtime example_service (database_with [])))
       = TotalRecords 0"
proof -
  let ?d = "database_with []"
  let ?loaded = "load_argo_data example_files ?d ''ARGO_2019.csv'' ''argo_data''"
  have missing: "\<not> path_exists example_files ''missing.csv''"
    and present: "path_exists example_files ''ARGO_2019.csv''"
    and rows: "read_csv example_files ''ARGO_2019.csv'' = Inr example_rows"
    by (simp_all add: example_files_def)
  have database: "conn_error ?d = None" "fault ?d (ReplaceTable ''argo_data'' example_rows) = None"
    "fault ?d (SelectCount (table_name example_service)) = None"
    "tables ?d (table_name example_service) = Some []"
    by (simp_all add: database_with_def example_service_def)
  note at_missing = load_then_count [where fs = example_files and d = ?d
      and p = "''missing.csv''" and t = "''argo_data''"]
  note w_missing = at_missing [THEN conjunct1, THEN mp, OF missing]
  note at_file = load_then_count [where fs = example_files and d = ?d
      and p = "''ARGO_2019.csv''" and t = "''argo_data''" and rows = example_rows
      and d' = "snd ?loaded" and rt = example_runtime and self = example_service]
  from present rows database
  have "path_exists example_files ''ARGO_2019.csv''
      \<and> read_csv example_files ''ARGO_2019.csv'' = Inr example_rows \<and> conn_error ?d = None
      \<and> fault ?d (ReplaceTable ''argo_data'' example_rows) = None"
    by simp
  note w_loaded = at_file [THEN conjunct2, THEN conjunct1, THEN mp, OF this]
  from w_loaded have pair: "?loaded = (True, snd ?loaded)"
    by (cases ?loaded) simp
  have "fault (snd ?loaded) (SelectCount ''argo_data'') = None"
    using load_argo_data_done [OF pair rows] by (simp add: database_with_def)
  with pair rows
  have "?loaded = (True, snd ?loaded) \<and> read_csv example_files ''ARGO_2019.csv'' = Inr example_rows
      \<and> fault (snd ?loaded) (SelectCount ''argo_data'') = None"
    by simp
  note counted = at_file [THEN conjunct2, THEN conjunct2, THEN conjunct1, THEN mp, OF this]
  from counted have w_count: "data (fst (get_data_count example_runtime
      \<lparr>table_name = ''argo_data''\<rparr> (snd ?loaded))) = TotalRecords 3"
    by (simp add: example_rows_def)
  from database
  have "conn_error ?d = None \<and> fault ?d (SelectCount (table_name example_service)) = None
      \<and> tables ?d (table_name example_service) = Some []"
    by simp
  note w_empty = at_file [THEN conjunct2, THEN conjunct2, THEN conjunct2, THEN mp, OF this]
  from w_loaded have w_true: "fst ?loaded"
    by simp
  show ?thesis
    by (intro conjI missing w_missing present rows w_true
        counted [THEN conjunct1] w_count w_empty [THEN conjunct1] w_empty [THEN conjunct2])
qed

lemma run_sent:
  assumes "run d how stmt t sem = (res, d')"
  shows "d' = d\<lparr>sent := sent d @ [stmt]\<rparr>"
  using assms by (auto simp: run_def)

lemma run_value:
  assumes "run d how stmt t sem = (Inr v, d')"
  shows "fault d stmt = None \<and> (\<exists>rs. tables d t = Some rs \<and> sem rs = Inr v)"
  using assms by (auto simp: run_def split: option.splits if_splits)

lemma table_probe_sent: "sent (table_probe d stmt) = sent d @ [TableProbe stmt]"
  by (simp add: table_probe_def)

lemma table_probe_tables: "tables (table_probe d stmt) = tables d"
  by (simp add: table_probe_def)

lemma group_key_sent: "group_key (d\<lparr>sent := s\<rparr>) = group_key d"
  by (rule ext) (simp add: group_key_def split: option.splits)

lemma temporal_sem_sent: "temporal_sem (d\<lparr>sent := s\<rparr>) = temporal_sem d"
  by (rule ext) (simp add: temporal_sem_def group_key_sent)

lemma summary_sem_row:
  "summary_sem rs = Inr v \<Longrightarrow> agg_total_records v = length (mld_rows rs)
     \<and> agg_unique_dates v = count_distinct (map datetime (mld_rows rs))"
  by (auto simp: summary_sem_def Let_def)

lemma get_data_summary_answer:
  assumes "success (fst (get_data_summary rt self d))"
  shows "\<exists>rs v gs. tables d (table_name self) = Some rs \<and> summary_sem rs = Inr v
           \<and> temporal_sem d rs = Inr gs
           \<and> data (fst (get_data_summary rt self d)) = Summary (summary_of v gs)
           \<and> sent (snd (get_data_summary rt self d))
               = sent d @ [SelectSummary (table_name self),
                   TableProbe (SelectTemporal (table_name self)),
                   SelectTemporal (table_name self)]"
proof -
  let ?t = "table_name self"
  obtain res d1 where first: "execute_summary d ?t = (res, d1)"
    by (cases "execute_summary d ?t")
  obtain res' d2 where second: "read_sql_temporal d1 ?t = (res', d2)"
    by (cases "read_sql_temporal d1 ?t")
  from assms first second obtain v gs where v: "res = Inr v" and gs: "res' = Inr gs"
    and conn: "connect d = Inr ()"
    by (cases "connect d"; cases res; cases res')
      (auto simp: get_data_summary_def get_data_summary_try_def format_response_success)
  from first have d1: "d1 = d\<lparr>sent := sent d @ [SelectSummary ?t]\<rparr>"
    unfolding execute_summary_def by (rule run_sent)
  from first v have "run d ThroughText (SelectSummary ?t) ?t summary_sem = (Inr v, d1)"
    by (simp add: execute_summary_def)
  from run_value [OF this]
  obtain rs where rs: "tables d ?t = Some rs" and row: "summary_sem rs = Inr v"
    by auto
  let ?p = "table_probe d1 (SelectTemporal ?t)"
  from second have d2: "d2 = ?p\<lparr>sent := sent ?p @ [SelectTemporal ?t]\<rparr>"
    unfolding read_sql_temporal_def by (rule run_sent)
  from second gs
  have "run ?p PlainString (SelectTemporal ?t) ?t (temporal_sem d1) = (Inr gs, d2)"
    by (simp add: read_sql_temporal_def)
  from run_value [OF this]
  obtain rs' where "tables ?p ?t = Some rs'" and "temporal_sem d1 rs' = Inr gs"
    by auto
  with rs d1 have groups: "temporal_sem d rs = Inr gs"
    by (simp add: temporal_sem_sent table_probe_tables)
  have "data (fst (get_data_summary rt self d)) = Summary (summary_of v gs)"
    and "sent (snd (get_data_summary rt self d))
      = sent d @ [SelectSummary ?t, TableProbe (SelectTemporal ?t), SelectTemporal ?t]"
    using first second v gs conn d1 d2
    by (simp_all add: get_data_summary_def get_data_summary_try_def format_response_def Let_def
        table_probe_sent)
  with rs row groups show ?thesis
    by blast
qed

lemma get_data_count_success:
  assumes "success (fst (get_data_count rt self d))" and "tables d (table_name self) = Some rs"
  shows "data (fst (get_data_count rt self d)) = TotalRecords (int (length rs))"
proof -
  obtain res d' where count: "execute_count d (table_name self) = (res, d')"
    by (cases "execute_count d (table_name self)")
  from assms(1) count obtain n where n: "res = Inr n" and conn: "connect d = Inr ()"
    by (cases "connect d"; cases res)
      (auto simp: get_data_count_def get_data_count_try_def format_response_success)
  from count n
  have "run d ThroughText (SelectCount (table_name self)) (table_name self)
        (\<lambda>rs. Inr (length rs))
      = (Inr n, d')"
    by (simp add: execute_count_def)
  from run_value [OF this] assms(2) have "n = length rs"
    by auto
  with count n conn show ?thesis
    by (simp add: get_data_count_def get_data_count_try_def format_response_def)
qed

lemma mld_rows_idem: "mld_rows (mld_rows rs) = mld_rows rs"
  by (simp add: mld_rows_def)

lemma int_if_true_int: "int_if_true n = int n"
  by (simp add: int_if_true_def)

text \<open>
  C10. The first query of \<^verbatim>\<open>get_data_summary\<close> aggregates the rows whose \<^verbatim>\<open>mld\<close> is
  not NULL and no others: its result is the same on the table and on the table without
  its NULL-\<^verbatim>\<open>mld\<close> rows, and the reported \<open>total_records\<close> and \<open>unique_dates\<close> are the
  number of those rows and the number of their distinct timestamps. Hence, when the
  table has a row with NULL \<^verbatim>\<open>mld\<close> and both calls succeed, the summary's
  \<open>total_records\<close> is strictly less than the count's.
\<close>

theorem summary_counts_mld_rows_only:
  "summary_sem rs = summary_sem (mld_rows rs)
   \<and> (tables d (table_name self) = Some rs \<and> success (fst (get_data_summary rt self d)) \<longrightarrow>
        (\<exists>s. data (fst (get_data_summary rt self d)) = Summary s
           \<and> total_records s = int (length (mld_rows rs))
           \<and> unique_dates s = int (count_distinct (map datetime (mld_rows rs)))))
   \<and> (tables d (table_name self) = Some rs \<and> list_ex (\<lambda>r. mld r = None) rs
        \<and> success (fst (get_data_summary rt self d))
        \<and> success (fst (get_data_count rt self d)) \<longrightarrow>
        (\<exists>s n. data (fst (get_data_summary rt self d)) = Summary s
           \<and> data (fst (get_data_count rt self d)) = TotalRecords n
           \<and> total_records s < n))"
proof (intro conjI impI)
  show "summary_sem rs = summary_sem (mld_rows rs)"
    by (simp add: summary_sem_def mld_rows_idem)
next
  assume "tables d (table_name self) = Some rs \<and> success (fst (get_data_summary rt self d))"
  then show "\<exists>s. data (fst (get_data_summary rt self d)) = Summary s
           \<and> total_records s = int (length (mld_rows rs))
           \<and> unique_dates s = int (count_distinct (map datetime (mld_rows rs)))"
    using get_data_summary_answer [of rt self d]
    by (auto simp: summary_of_def int_if_true_int dest: summary_sem_row)
next
  assume both: "tables d (table_name self) = Some rs \<and> list_ex (\<lambda>r. mld r = None) rs
        \<and> success (fst (get_data_summary rt self d))
        \<and> success (fst (get_data_count rt self d))"
  then obtain s where s: "data (fst (get_data_summary rt self d)) = Summary s"
    and total: "total_records s = int (length (mld_rows rs))"
    using get_data_summary_answer [of rt self d]
    by (auto simp: summary_of_def int_if_true_int dest: summary_sem_row)
  from both have count: "data (fst (get_data_count rt self d)) = TotalRecords (int (length rs))"
    by (simp add: get_data_count_success)
  from both obtain r where "r \<in> set rs" and "mld r = None"
    by (auto simp: list_ex_iff)
  then have "length (mld_rows rs) < length rs"
    unfolding mld_rows_def by (intro length_filter_less) simp_all
  with s total count show "\<exists>s n. data (fst (get_data_summary rt self d)) = Summary s
           \<and> data (fst (get_data_count rt self d)) = TotalRecords n
           \<and> total_records s < n"
    by simp
qed

lemma example_summary_succeeds:
  "success (fst (get_data_summary example_runtime example_service example_db))"
  by code_simp

lemma example_count_succeeds:
  "success (fst (get_data_count example_runtime example_service example_db))"
  by code_simp

text \<open>
  C10 on the example database: one of its three observations has no \<^verbatim>\<open>mld\<close>, so the
  summary reports two records and the count three.
\<close>

theorem summary_counts_mld_rows_only_witness:
  "tables example_db (table_name example_service) = Some example_rows
   \<and> list_ex (\<lambda>r. mld r = None) example_rows
   \<and> success (fst (get_data_summary example_runtime example_service example_db))
   \<and> success (fst (get_data_count example_runtime example_service example_db))
   \<and> (\<exists>s n. data (fst (get_data_summary example_runtime example_service example_db)) = Summary s
          \<and> data (fst (get_data_count example_runtime example_service example_db))
              = TotalRecords n
          \<and> total_records s < n \<and> total_records s = 2 \<and> n = 3)"
proof -
  have table: "tables example_db (table_name example_service) = Some example_rows"
    by (simp add: example_db_def database_with_def example_service_def)
  have null: "list_ex (\<lambda>r. mld r = None) example_rows"
    by (simp add: example_rows_def)
  note here = summary_counts_mld_rows_only [where rs = example_rows and d = example_db
      and self = example_service and rt = example_runtime]
  from table example_summary_succeeds
  have "tables example_db (table_name example_service) = Some example_rows
      \<and> success (fst (get_data_summary example_runtime example_service example_db))"
    by simp
  from here [THEN conjunct2, THEN conjunct1, THEN mp, OF this]
  obtain s0 where s0: "data (fst (get_data_summary example_runtime example_service example_db))
      = Summary s0"
    and two: "total_records s0 = int (length (mld_rows example_rows))"
    by blast
  from table null example_summary_succeeds example_count_succeeds
  have "tables example_db (table_name example_service) = Some example_rows
      \<and> list_ex (\<lambda>r. mld r = None) example_rows
      \<and> success (fst (get_data_summary example_runtime example_service example_db))
      \<and> success (fst (get_data_count example_runtime example_service example_db))"
    by simp
  from here [THEN conjunct2, THEN conjunct2, THEN mp, OF this]
  obtain s n where s: "data (fst (get_data_summary example_runtime example_service example_db))
      = Summary s"
    and n: "data (fst (get_data_count example_runtime example_service example_db))
      = TotalRecords n"
    and less: "total_records s < n"
    by blast
  from s s0 two have total: "total_records s = 2"
    by (simp add: mld_rows_def example_rows_def)
  from n get_data_count_success [OF example_count_succeeds table] have "n = 3"
    by (simp add: example_rows_def)
  with s n less total
  have "\<exists>s n. data (fst (get_data_summary example_runtime example_service example_db)) = Summary s
          \<and> data (fst (get_data_count example_runtime example_service example_db))
              = TotalRecords n
          \<and> total_records s < n \<and> total_records s = 2 \<and> n = 3"
    by (intro exI [where x = s] exI [where x = n]) simp
  with table null example_summary_succeeds example_count_succeeds show ?thesis
    by (intro conjI)
qed

lemma distinct_insert_by: "distinct (insert_by le x xs) \<longleftrightarrow> x \<notin> set xs \<and> distinct xs"
  by (induction xs) (auto simp: set_insert_by)

lemma distinct_sort_by: "distinct (sort_by le xs) = distinct xs"
  unfolding sort_by_def by (induction xs) (simp_all add: distinct_insert_by set_sort_by [unfolded sort_by_def])

lemma year_month_temporal_record:
  "year_month (temporal_record gs g)
     = map_option (\<lambda>ym. (real_of_int (fst ym), real_of_int (snd ym))) (fst g)"
  by (cases g; cases "fst g")
    (auto simp: year_month_def temporal_record_def num_cell_def null_repr_def)

lemma null_last_le_reals:
  "null_last_le (map_option (\<lambda>ym. (real_of_int (fst ym), real_of_int (snd ym))) a)
       (map_option (\<lambda>ym. (real_of_int (fst ym), real_of_int (snd ym))) b)
     = null_last_le a b"
  by (cases a; cases b) (auto simp: less_eq_prod_def)

lemma inj_reals: "inj (map_option (\<lambda>ym :: int \<times> int. (real_of_int (fst ym), real_of_int (snd ym))))"
  by (rule option.inj_map) (auto simp: inj_on_def prod_eq_iff)

lemma temporal_sem_groups:
  assumes "temporal_sem d rs = Inr gs"
  shows "length gs \<le> 12 \<and> sorted_wrt null_last_le (map fst gs) \<and> distinct (map fst gs)"
proof -
  from assms obtain ks where gs:
    "gs = take 12 (map (\<lambda>k. (k, count_list ks k)) (sort_by null_last_le (remdups ks)))"
    by (auto simp: temporal_sem_def split: sum.splits)
  let ?keys = "sort_by null_last_le (remdups ks)"
  have keys: "map fst gs = take 12 ?keys"
    by (simp add: gs take_map comp_def)
  have "sorted_wrt null_last_le ?keys"
    by (rule sorted_sort_by) (auto simp: null_last_le_total intro: null_last_le_trans)
  then have "sorted_wrt null_last_le (take 12 ?keys)"
    by (rule sorted_wrt_take)
  moreover have "distinct (take 12 ?keys)"
    by (rule distinct_take) (simp add: distinct_sort_by)
  moreover have "length gs \<le> 12"
    by (simp add: gs)
  ultimately show ?thesis
    by (simp add: keys)
qed

lemma temporal_records:
  "map year_month (temporal_to_dict_records gs)
     = map (map_option (\<lambda>ym. (real_of_int (fst ym), real_of_int (snd ym)))) (map fst gs)"
  by (simp add: temporal_to_dict_records_def year_month_temporal_record comp_def)

lemma read_sql_temporal_sent:
  "sent (snd (read_sql_temporal d t))
     = sent d @ [TableProbe (SelectTemporal t), SelectTemporal t]"
  by (simp add: read_sql_temporal_def run_def table_probe_def)

lemma get_data_summary_no_connection:
  assumes "conn_error d \<noteq> None"
  shows "sent (snd (get_data_summary rt self d)) = sent d"
  using assms by (auto simp: get_data_summary_def get_data_summary_try_def connect_def)

lemma get_data_summary_first_refused:
  assumes "conn_error d = None"
    and "fault d (SelectSummary (table_name self)) \<noteq> None \<or> tables d (table_name self) = None"
  shows "sent (snd (get_data_summary rt self d)) = sent d @ [SelectSummary (table_name self)]"
proof -
  from assms(2) obtain m where "execute_summary d (table_name self)
      = (Inl (ProgrammingError m), d\<lparr>sent := sent d @ [SelectSummary (table_name self)]\<rparr>)"
    by (cases "fault d (SelectSummary (table_name self))")
      (auto simp: execute_summary_def run_def)
  with assms(1) show ?thesis
    by (simp add: get_data_summary_def get_data_summary_try_def connect_def)
qed

lemma get_data_summary_first_answered:
  assumes "conn_error d = None" and "fault d (SelectSummary (table_name self)) = None"
    and "tables d (table_name self) \<noteq> None"
  shows "sent (snd (get_data_summary rt self d))
     = sent d @ [SelectSummary (table_name self), TableProbe (SelectTemporal (table_name self)),
         SelectTemporal (table_name self)]"
proof -
  let ?t = "table_name self"
  let ?d1 = "d\<lparr>sent := sent d @ [SelectSummary ?t]\<rparr>"
  obtain res' d2 where second: "read_sql_temporal ?d1 ?t = (res', d2)"
    by (cases "read_sql_temporal ?d1 ?t")
  from read_sql_temporal_sent [of ?d1 ?t] second
  have d2: "sent d2 = sent d @ [SelectSummary ?t, TableProbe (SelectTemporal ?t), SelectTemporal ?t]"
    by simp
  from assms second d2 show ?thesis
    by (cases res')
      (auto simp: get_data_summary_def get_data_summary_try_def Let_def connect_def
        execute_summary_def run_def summary_sem_def)
qed

lemma thirteen_months_result:
  "(case get_data_summary example_runtime example_service (database_with (monthly_rows 13)) of
      (response, d') \<Rightarrow>
        success response
        \<and> (case data response of
             Summary s \<Rightarrow> length (temporal_distribution s) = 12
               \<and> map year_month (take 2 (temporal_distribution s)) = [Some (2019, 1), Some (2019, 2)]
               \<and> map year_month (drop 11 (temporal_distribution s)) = [Some (2019, 12)]
           | _ \<Rightarrow> False))"
  by code_simp

text \<open>
  C7, as amended. The number of statements a call of \<^verbatim>\<open>get_data_summary\<close>
  sends is not two for every call. \<^verbatim>\<open>get_data_summary\<close> has two queries of its own, the
  aggregate query and the monthly grouping, and hands the second to \<^verbatim>\<open>pd.read_sql\<close>,
  which first asks the catalog whether the text names a table. So a call sends nothing
  when no connection opens, the aggregate query alone when the server refuses it, and
  otherwise three statements: the aggregate query, the catalog probe, the monthly
  grouping; every call that succeeds sends these three. The \<^verbatim>\<open>temporal_distribution\<close>
  of a successful call has at most 12 entries, one per year and month, in ascending
  order of (year, month); the group of the rows without a timestamp, when there is one,
  comes last.
\<close>

theorem summary_statements_twelve_months:
  "(conn_error d \<noteq> None \<longrightarrow> sent (snd (get_data_summary rt self d)) = sent d)
   \<and> (conn_error d = None
        \<and> (fault d (SelectSummary (table_name self)) \<noteq> None \<or> tables d (table_name self) = None)
        \<longrightarrow> sent (snd (get_data_summary rt self d)) = sent d @ [SelectSummary (table_name self)])
   \<and> (conn_error d = None \<and> fault d (SelectSummary (table_name self)) = None
        \<and> tables d (table_name self) \<noteq> None \<longrightarrow>
        sent (snd (get_data_summary rt self d))
          = sent d @ [SelectSummary (table_name self),
              TableProbe (SelectTemporal (table_name self)), SelectTemporal (table_name self)])
   \<and> (success (fst (get_data_summary rt self d)) \<longrightarrow>
        sent (snd (get_data_summary rt self d))
          = sent d @ [SelectSummary (table_name self),
              TableProbe (SelectTemporal (table_name self)), SelectTemporal (table_name self)]
        \<and> (\<exists>s. data (fst (get_data_summary rt self d)) = Summary s
              \<and> length (temporal_distribution s) \<le> 12
              \<and> sorted_wrt (\<lambda>a b. null_last_le (year_month a) (year_month b))
                    (temporal_distribution s)
              \<and> distinct (map year_month (temporal_distribution s))))"
proof (intro conjI impI)
  assume "conn_error d \<noteq> None"
  then show "sent (snd (get_data_summary rt self d)) = sent d"
    by (rule get_data_summary_no_connection)
next
  assume "conn_error d = None
      \<and> (fault d (SelectSummary (table_name self)) \<noteq> None \<or> tables d (table_name self) = None)"
  then show "sent (snd (get_data_summary rt self d)) = sent d @ [SelectSummary (table_name self)]"
    by (intro get_data_summary_first_refused) simp_all
next
  assume "conn_error d = None \<and> fault d (SelectSummary (table_name self)) = None
      \<and> tables d (table_name self) \<noteq> None"
  then show "sent (snd (get_data_summary rt self d))
      = sent d @ [SelectSummary (table_name self),
          TableProbe (SelectTemporal (table_name self)), SelectTemporal (table_name self)]"
    by (simp add: get_data_summary_first_answered)
next
  assume ok: "success (fst (get_data_summary rt self d))"
  from get_data_summary_answer [OF ok]
  obtain rs v gs where groups: "temporal_sem d rs = Inr gs"
    and summary: "data (fst (get_data_summary rt self d)) = Summary (summary_of v gs)"
    and three: "sent (snd (get_data_summary rt self d))
      = sent d @ [SelectSummary (table_name self),
          TableProbe (SelectTemporal (table_name self)), SelectTemporal (table_name self)]"
    by blast
  from three show "sent (snd (get_data_summary rt self d))
      = sent d @ [SelectSummary (table_name self),
          TableProbe (SelectTemporal (table_name self)), SelectTemporal (table_name self)]" .
  let ?list = "temporal_distribution (summary_of v gs)"
  from temporal_sem_groups [OF groups]
  have len: "length gs \<le> 12" and sorted: "sorted_wrt null_last_le (map fst gs)"
    and distinct: "distinct (map fst gs)"
    by simp_all
  have list: "?list = temporal_to_dict_records gs"
    by (simp add: summary_of_def)
  have "length ?list \<le> 12"
    using len by (simp add: list temporal_to_dict_records_def)
  moreover have "sorted_wrt (\<lambda>a b. null_last_le (year_month a) (year_month b)) ?list"
    using sorted
    by (simp add: sorted_wrt_map [symmetric] list temporal_records null_last_le_reals
        sorted_wrt_map [where xs = "map fst gs"] del: map_map)
  moreover have "distinct (map year_month ?list)"
    using distinct by (simp add: list temporal_records distinct_map inj_reals [THEN inj_on_subset]
        del: map_map)
  ultimately show "\<exists>s. data (fst (get_data_summary rt self d)) = Summary s
      \<and> length (temporal_distribution s) \<le> 12
      \<and> sorted_wrt (\<lambda>a b. null_last_le (year_month a) (year_month b)) (temporal_distribution s)
      \<and> distinct (map year_month (temporal_distribution s))"
    using summary by blast
qed

text \<open>
  C7 on three databases. On a table with one observation in each of thirteen
  consecutive months the call succeeds, sends the three statements, and returns twelve
  entries, in order. On a database without the table it sends the aggregate query and
  stops. On a database no connection can be opened to it sends nothing.
\<close>

theorem summary_statements_twelve_months_witness:
  "conn_error (database_with (monthly_rows 13)) = None
   \<and> fault (database_with (monthly_rows 13)) (SelectSummary (table_name example_service)) = None
   \<and> tables (database_with (monthly_rows 13)) (table_name example_service) \<noteq> None
   \<and> success (fst (get_data_summary example_runtime example_service
                     (database_with (monthly_rows 13))))
   \<and> sent (snd (get_data_summary example_runtime example_service
                  (database_with (monthly_rows 13))))
       = [SelectSummary ''argo_data'', TableProbe (SelectTemporal ''argo_data''),
          SelectTemporal ''argo_data'']
   \<and> (\<exists>s. data (fst (get_data_summary example_runtime example_service
                        (database_with (monthly_rows 13)))) = Summary s
          \<and> length (temporal_distribution s) = 12
          \<and> sorted_wrt (\<lambda>a b. null_last_le (year_month a) (year_month b))
                (temporal_distribution s)
          \<and> distinct (map year_month (temporal_distribution s)))
   \<and> conn_error ((database_with [])\<lparr>tables := Map.empty\<rparr>) = None
   \<and> tables ((database_with [])\<lparr>tables := Map.empty\<rparr>) (table_name example_service) = None
   \<and> sent (snd (get_data_summary example_runtime example_service
                  ((database_with [])\<lparr>tables := Map.empty\<rparr>)))
       = [SelectSummary ''argo_data'']
   \<and> conn_error unreachable_db \<noteq> None
   \<and> sent (snd (get_data_summary example_runtime example_service unreachable_db)) = []"
proof -
  let ?d = "database_with (monthly_rows 13)"
  let ?call = "get_data_summary example_runtime example_service ?d"
  let ?e = "(database_with [])\<lparr>tables := Map.empty\<rparr>"
  have conn: "conn_error ?d = None"
    and fault: "fault ?d (SelectSummary (table_name example_service)) = None"
    and table: "tables ?d (table_name example_service) \<noteq> None"
    by (simp_all add: database_with_def example_service_def)
  note here = summary_statements_twelve_months [where d = ?d and self = example_service
      and rt = example_runtime]
  from conn fault table
  have "conn_error ?d = None \<and> fault ?d (SelectSummary (table_name example_service)) = None
      \<and> tables ?d (table_name example_service) \<noteq> None"
    by simp
  from here [THEN conjunct2, THEN conjunct2, THEN conjunct1, THEN mp, OF this]
  have three: "sent (snd ?call) = [SelectSummary ''argo_data'',
      TableProbe (SelectTemporal ''argo_data''), SelectTemporal ''argo_data'']"
    by (simp add: database_with_def example_service_def)
  obtain response d' where call: "?call = (response, d')"
    by (cases ?call)
  with thirteen_months_result have ok: "success (fst ?call)"
    by simp
  from here [THEN conjunct2, THEN conjunct2, THEN conjunct2, THEN mp, OF ok]
  obtain s where s: "data (fst ?call) = Summary s"
    and sorted: "sorted_wrt (\<lambda>a b. null_last_le (year_month a) (year_month b))
        (temporal_distribution s)"
    and distinct: "distinct (map year_month (temporal_distribution s))"
    by blast
  from thirteen_months_result call s have "length (temporal_distribution s) = 12"
    by simp
  with s sorted distinct
  have list: "\<exists>s. data (fst ?call) = Summary s \<and> length (temporal_distribution s) = 12
      \<and> sorted_wrt (\<lambda>a b. null_last_le (year_month a) (year_month b)) (temporal_distribution s)
      \<and> distinct (map year_month (temporal_distribution s))"
    by (intro exI [where x = s]) simp
  have open_e: "conn_error ?e = None"
    and none_e: "tables ?e (table_name example_service) = None"
    by (simp_all add: database_with_def)
  then have "conn_error ?e = None
      \<and> (fault ?e (SelectSummary (table_name example_service)) \<noteq> None
          \<or> tables ?e (table_name example_service) = None)"
    by simp
  from summary_statements_twelve_months [where d = ?e and self = example_service
      and rt = example_runtime, THEN conjunct2, THEN conjunct1, THEN mp, OF this]
  have one: "sent (snd (get_data_summary example_runtime example_service ?e))
      = [SelectSummary ''argo_data'']"
    by (simp add: database_with_def example_service_def)
  have closed: "conn_error unreachable_db \<noteq> None"
    by (simp add: unreachable_db_def)
  from summary_statements_twelve_months [where d = unreachable_db and self = example_service
      and rt = example_runtime, THEN conjunct1, THEN mp, OF this]
  have none: "sent (snd (get_data_summary example_runtime example_service unreachable_db)) = []"
    by (simp add: unreachable_db_def database_with_def)
  from conn fault table ok three list open_e none_e one closed none show ?thesis
    by (intro conjI)
qed

text \<open>
  C7 as stated fails: a call does not always send two statements. On the example
  database a call succeeds and three statements reach the server; on a database no
  connection can be opened to, a call sends none.
\<close>

theorem summary_call_not_two_statements:
  "success (fst (get_data_summary example_runtime example_service example_db))
   \<and> sent (snd (get_data_summary example_runtime example_service example_db))
       = [SelectSummary ''argo_data'', TableProbe (SelectTemporal ''argo_data''),
          SelectTemporal ''argo_data'']
   \<and> length (sent (snd (get_data_summary example_runtime example_service example_db))) \<noteq> 2
   \<and> \<not> success (fst (get_data_summary example_runtime example_service unreachable_db))
   \<and> length (sent (snd (get_data_summary example_runtime example_service unreachable_db))) \<noteq> 2"
  by code_simp

lemma surfaced_float: "surfaced v 0 (float_if_true v)"
  by (cases v) (simp_all add: surfaced_def float_if_true_def)

lemma surfaced_str: "surfaced v [] (str_if_true v)"
  by (cases v) (simp_all add: surfaced_def str_if_true_def)

lemma summary_sem_fields:
  "summary_sem rs = Inr v \<Longrightarrow>
     v = \<lparr>agg_total_records = length (mld_rows rs),
          agg_min_latitude = sql_min (map lat (mld_rows rs)),
          agg_max_latitude = sql_max (map lat (mld_rows rs)),
          agg_min_longitude = sql_min (map lon (mld_rows rs)),
          agg_max_longitude = sql_max (map lon (mld_rows rs)),
          agg_earliest_date = sql_min (map datetime (mld_rows rs)),
          agg_latest_date = sql_max (map datetime (mld_rows rs)),
          agg_avg_mld = sql_avg (map mld (mld_rows rs)),
          agg_min_mld = sql_min (map mld (mld_rows rs)),
          agg_max_mld = sql_max (map mld (mld_rows rs)),
          agg_unique_dates = count_distinct (map datetime (mld_rows rs))\<rparr>"
  by (auto simp: summary_sem_def Let_def)

lemma no_values:
  "sql_min [] = None" "sql_max [] = None" "sql_avg [] = None" "count_distinct [] = 0"
  by (simp_all add: sql_min_def sql_max_def sql_avg_def count_distinct_def non_null_def
      List.map_filter_simps)

lemma not_surfaced_None: "surfaced None z f \<Longrightarrow> f = None"
  by (simp add: surfaced_def)

text \<open>
  C3, as amended. For a call of \<^verbatim>\<open>get_data_summary\<close> that succeeds on a table:
  \<open>total_records\<close> and \<open>unique_dates\<close> are the number of rows with a mixed-layer depth
  and the number of their distinct timestamps, hence 0 when no row matches. Each of
  the nine statistics is null when its aggregate has no value (no row matched, or the
  column is NULL in every matching row), and holds the aggregate when that is a value
  other than zero (for the two dates: other than the empty string). When no row
  matches, all nine are null.
\<close>

theorem summary_statistics:
  "tables d (table_name self) = Some rs \<and> success (fst (get_data_summary rt self d)) \<longrightarrow>
     (\<exists>s. data (fst (get_data_summary rt self d)) = Summary s
        \<and> total_records s = int (length (mld_rows rs))
        \<and> unique_dates s = int (count_distinct (map datetime (mld_rows rs)))
        \<and> surfaced (sql_min (map lat (mld_rows rs))) 0 (latitude_min s)
        \<and> surfaced (sql_max (map lat (mld_rows rs))) 0 (latitude_max s)
        \<and> surfaced (sql_min (map lon (mld_rows rs))) 0 (longitude_min s)
        \<and> surfaced (sql_max (map lon (mld_rows rs))) 0 (longitude_max s)
        \<and> surfaced (sql_avg (map mld (mld_rows rs))) 0 (mld_average s)
        \<and> surfaced (sql_min (map mld (mld_rows rs))) 0 (mld_minimum s)
        \<and> surfaced (sql_max (map mld (mld_rows rs))) 0 (mld_maximum s)
        \<and> surfaced (sql_min (map datetime (mld_rows rs))) [] (date_earliest s)
        \<and> surfaced (sql_max (map datetime (mld_rows rs))) [] (date_latest s)
        \<and> (mld_rows rs = [] \<longrightarrow>
             total_records s = 0 \<and> unique_dates s = 0
             \<and> latitude_min s = None \<and> latitude_max s = None
             \<and> longitude_min s = None \<and> longitude_max s = None
             \<and> mld_average s = None \<and> mld_minimum s = None \<and> mld_maximum s = None
             \<and> date_earliest s = None \<and> date_latest s = None))"
proof
  assume ok: "tables d (table_name self) = Some rs \<and> success (fst (get_data_summary rt self d))"
  then obtain rs' v gs where "tables d (table_name self) = Some rs'"
    and row: "summary_sem rs' = Inr v"
    and summary: "data (fst (get_data_summary rt self d)) = Summary (summary_of v gs)"
    using get_data_summary_answer [of rt self d] by blast
  with ok have "summary_sem rs = Inr v"
    by simp
  note v = summary_sem_fields [OF this]
  let ?s = "summary_of v gs"
  have counts: "total_records ?s = int (length (mld_rows rs))"
    "unique_dates ?s = int (count_distinct (map datetime (mld_rows rs)))"
    by (subst v, simp add: summary_of_def int_if_true_int)+
  have fields: "surfaced (sql_min (map lat (mld_rows rs))) 0 (latitude_min ?s)"
    "surfaced (sql_max (map lat (mld_rows rs))) 0 (latitude_max ?s)"
    "surfaced (sql_min (map lon (mld_rows rs))) 0 (longitude_min ?s)"
    "surfaced (sql_max (map lon (mld_rows rs))) 0 (longitude_max ?s)"
    "surfaced (sql_avg (map mld (mld_rows rs))) 0 (mld_average ?s)"
    "surfaced (sql_min (map mld (mld_rows rs))) 0 (mld_minimum ?s)"
    "surfaced (sql_max (map mld (mld_rows rs))) 0 (mld_maximum ?s)"
    "surfaced (sql_min (map datetime (mld_rows rs))) [] (date_earliest ?s)"
    "surfaced (sql_max (map datetime (mld_rows rs))) [] (date_latest ?s)"
    by (subst v, simp add: summary_of_def surfaced_float surfaced_str)+
  have empty: "mld_rows rs = [] \<longrightarrow>
      total_records ?s = 0 \<and> unique_dates ?s = 0
      \<and> latitude_min ?s = None \<and> latitude_max ?s = None
      \<and> longitude_min ?s = None \<and> longitude_max ?s = None
      \<and> mld_average ?s = None \<and> mld_minimum ?s = None \<and> mld_maximum ?s = None
      \<and> date_earliest ?s = None \<and> date_latest ?s = None"
  proof
    assume none: "mld_rows rs = []"
    from counts fields show "total_records ?s = 0 \<and> unique_dates ?s = 0
      \<and> latitude_min ?s = None \<and> latitude_max ?s = None
      \<and> longitude_min ?s = None \<and> longitude_max ?s = None
      \<and> mld_average ?s = None \<and> mld_minimum ?s = None \<and> mld_maximum ?s = None
      \<and> date_earliest ?s = None \<and> date_latest ?s = None"
      unfolding none by (simp add: no_values not_surfaced_None)
  qed
  from summary counts fields empty
  show "\<exists>s. data (fst (get_data_summary rt self d)) = Summary s
        \<and> total_records s = int (length (mld_rows rs))
        \<and> unique_dates s = int (count_distinct (map datetime (mld_rows rs)))
        \<and> surfaced (sql_min (map lat (mld_rows rs))) 0 (latitude_min s)
        \<and> surfaced (sql_max (map lat (mld_rows rs))) 0 (latitude_max s)
        \<and> surfaced (sql_min (map lon (mld_rows rs))) 0 (longitude_min s)
        \<and> surfaced (sql_max (map lon (mld_rows rs))) 0 (longitude_max s)
        \<and> surfaced (sql_avg (map mld (mld_rows rs))) 0 (mld_average s)
        \<and> surfaced (sql_min (map mld (mld_rows rs))) 0 (mld_minimum s)
        \<and> surfaced (sql_max (map mld (mld_rows rs))) 0 (mld_maximum s)
        \<and> surfaced (sql_min (map datetime (mld_rows rs))) [] (date_earliest s)
        \<and> surfaced (sql_max (map datetime (mld_rows rs))) [] (date_latest s)
        \<and> (mld_rows rs = [] \<longrightarrow>
             total_records s = 0 \<and> unique_dates s = 0
             \<and> latitude_min s = None \<and> latitude_max s = None
             \<and> longitude_min s = None \<and> longitude_max s = None
             \<and> mld_average s = None \<and> mld_minimum s = None \<and> mld_maximum s = None
             \<and> date_earliest s = None \<and> date_latest s = None)"
    by (intro exI [where x = ?s] conjI)
qed

lemma example_aggregates:
  "mld_rows example_rows \<noteq> []"
  "length (mld_rows example_rows) = 2"
  "sql_min (map lat (mld_rows example_rows)) = Some 5"
  "sql_max (map lat (mld_rows example_rows)) = Some 20"
  "sql_avg (map mld (mld_rows example_rows)) = Some (65 / 2)"
  "sql_min (map datetime (mld_rows example_rows)) = Some ''2019-01-30 00:00:00''"
  by (simp_all add: example_rows_def mld_rows_def sql_min_def sql_max_def sql_avg_def
      non_null_def List.map_filter_simps)

lemma empty_summary_succeeds:
  "success (fst (get_data_summary example_runtime example_service (database_with [])))"
  by code_simp

text \<open>
  C3 on the example database, where two rows match, and on an empty table, where
  none does.
\<close>

theorem summary_statistics_witness:
  "tables example_db (table_name example_service) = Some example_rows
   \<and> success (fst (get_data_summary example_runtime example_service example_db))
   \<and> (\<exists>s. data (fst (get_data_summary example_runtime example_service example_db)) = Summary s
          \<and> total_records s = 2 \<and> latitude_min s = Some 5 \<and> latitude_max s = Some 20
          \<and> mld_average s = Some (65 / 2)
          \<and> date_earliest s = Some ''2019-01-30 00:00:00'')
   \<and> tables (database_with []) (table_name example_service) = Some []
   \<and> success (fst (get_data_summary example_runtime example_service (database_with [])))
   \<and> (\<exists>s. data (fst (get_data_summary example_runtime example_service (database_with [])))
              = Summary s
          \<and> total_records s = 0 \<and> unique_dates s = 0 \<and> latitude_min s = None
          \<and> mld_average s = None \<and> date_earliest s = None)"
proof -
  have table: "tables example_db (table_name example_service) = Some example_rows"
    by (simp add: example_db_def database_with_def example_service_def)
  with example_summary_succeeds
  have "tables example_db (table_name example_service) = Some example_rows
      \<and> success (fst (get_data_summary example_runtime example_service example_db))"
    by simp
  from summary_statistics [where d = example_db and self = example_service
      and rs = example_rows and rt = example_runtime, THEN mp, OF this]
  obtain s where s: "data (fst (get_data_summary example_runtime example_service example_db))
      = Summary s"
    and fields: "total_records s = int (length (mld_rows example_rows))"
      "surfaced (sql_min (map lat (mld_rows example_rows))) 0 (latitude_min s)"
      "surfaced (sql_max (map lat (mld_rows example_rows))) 0 (latitude_max s)"
      "surfaced (sql_avg (map mld (mld_rows example_rows))) 0 (mld_average s)"
      "surfaced (sql_min (map datetime (mld_rows example_rows))) [] (date_earliest s)"
    by blast
  from fields have "total_records s = 2 \<and> latitude_min s = Some 5 \<and> latitude_max s = Some 20
      \<and> mld_average s = Some (65 / 2) \<and> date_earliest s = Some ''2019-01-30 00:00:00''"
    by (simp add: example_aggregates surfaced_def)
  with s have full: "\<exists>s. data (fst (get_data_summary example_runtime example_service example_db))
        = Summary s
      \<and> total_records s = 2 \<and> latitude_min s = Some 5 \<and> latitude_max s = Some 20
      \<and> mld_average s = Some (65 / 2) \<and> date_earliest s = Some ''2019-01-30 00:00:00''"
    by (intro exI [where x = s]) simp
  have no_table: "tables (database_with []) (table_name example_service) = Some []"
    by (simp add: database_with_def example_service_def)
  with empty_summary_succeeds
  have "tables (database_with []) (table_name example_service) = Some []
      \<and> success (fst (get_data_summary example_runtime example_service (database_with [])))"
    by simp
  from summary_statistics [where d = "database_with []" and self = example_service
      and rs = "[]" and rt = example_runtime, THEN mp, OF this]
  obtain s' where s': "data (fst (get_data_summary example_runtime example_service
        (database_with []))) = Summary s'"
    and none: "mld_rows [] = [] \<longrightarrow>
      total_records s' = 0 \<and> unique_dates s' = 0
      \<and> latitude_min s' = None \<and> latitude_max s' = None
      \<and> longitude_min s' = None \<and> longitude_max s' = None
      \<and> mld_average s' = None \<and> mld_minimum s' = None \<and> mld_maximum s' = None
      \<and> date_earliest s' = None \<and> date_latest s' = None"
    by blast
  from none have "total_records s' = 0 \<and> unique_dates s' = 0 \<and> latitude_min s' = None
      \<and> mld_average s' = None \<and> date_earliest s' = None"
    by (simp add: mld_rows_def)
  with s' have empty: "\<exists>s. data (fst (get_data_summary example_runtime example_service
        (database_with []))) = Summary s
      \<and> total_records s = 0 \<and> unique_dates s = 0 \<and> latitude_min s = None
      \<and> mld_average s = None \<and> date_earliest s = None"
    by (intro exI [where x = s']) simp
  from table example_summary_succeeds full no_table empty_summary_succeeds empty
  show ?thesis
    by (intro conjI)
qed

text \<open>
  C3 as stated fails: here one row matches (\<open>total_records = 1\<close>) and its latitude is
  NULL, so the minimum and maximum latitude have no value and are reported as null.
\<close>

theorem summary_null_although_rows_match:
  "data (fst (get_data_summary example_runtime example_service (database_with uncharted_rows)))
   = Summary
       \<lparr>total_records = 1, unique_dates = 1,
        date_earliest = Some ''2019-01-29 12:00:00'',
        date_latest = Some ''2019-01-29 12:00:00'',
        latitude_min = None, latitude_max = None,
        longitude_min = Some 73, longitude_max = Some 73,
        mld_average = Some 42, mld_minimum = Some 42, mld_maximum = Some 42,
        temporal_distribution =
          [[(''year'', PyNum 2019), (''month'', PyNum 1), (''record_count'', PyNum 1)]]\<rparr>"
  by code_simp

text \<open>
  The test \<^verbatim>\<open>x if summary_row[i] else None\<close> is on the truth of the value, so an
  aggregate that is zero is reported as null as well: one observation on the equator
  has minimum and maximum latitude 0, and both are returned as \<^verbatim>\<open>None\<close>.
\<close>

lemma equator_summary:
  "sql_min (map lat (mld_rows equator_rows)) = Some 0
   \<and> data (fst (get_data_summary example_runtime example_service (database_with equator_rows)))
       = Summary
           \<lparr>total_records = 1, unique_dates = 1,
            date_earliest = Some ''2019-01-29 12:00:00'',
            date_latest = Some ''2019-01-29 12:00:00'',
            latitude_min = None, latitude_max = None,
            longitude_min = Some 73, longitude_max = Some 73,
            mld_average = Some 42, mld_minimum = Some 42, mld_maximum = Some 42,
            temporal_distribution =
              [[(''year'', PyNum 2019), (''month'', PyNum 1), (''record_count'', PyNum 1)]]\<rparr>"
  by code_simp

lemma nan_to_none_nan_free: "list_all nan_free (nan_to_none records)"
proof -
  have converted: "(if isna v then PyNone else v) \<noteq> PyNaN" for v
    by (cases v) simp_all
  have "nan_free (map (\<lambda>(key, v). (key, if isna v then PyNone else v)) rec)" for rec
    by (induction rec) (auto simp: nan_free_def converted simp del: isna.simps)
  then show ?thesis
    by (simp add: nan_to_none_def list_all_iff)
qed

text \<open>
  The three row-returning operations would run the conversion loop on their records;
  as their statement is refused, the list they return is empty, and no field of it
  holds NaN.
\<close>

lemma rows_nan_free:
  "(\<exists>records. data (fst (get_sample_data rt self d limit)) = Records records
       \<and> list_all nan_free records)
   \<and> (\<exists>records. data (fst (query_by_location rt self d lat_range lon_range limit))
                   = Records records
       \<and> list_all nan_free records)
   \<and> (\<exists>records. data (fst (query_by_date_range rt self d start_date end_date limit))
                   = Records records
       \<and> list_all nan_free records)"
  by (simp add: get_sample_data_fails query_by_location_fails query_by_date_range_fails)

text \<open>
  C6 fails for \<^verbatim>\<open>temporal_distribution\<close>, which is returned as
  \<^verbatim>\<open>temporal_df.to_dict('records')\<close> without the conversion loop the other three
  lists go through. With one dated and one undated observation in the table, the
  group of the undated one has NULL for year and month, the frame holds NaN there, and
  the returned entry holds NaN in both fields.
\<close>

theorem temporal_distribution_holds_nan:
  "data (fst (get_data_summary example_runtime example_service (database_with undated_rows)))
   = Summary
       \<lparr>total_records = 2, unique_dates = 1,
        date_earliest = Some ''2019-01-29 12:00:00'',
        date_latest = Some ''2019-01-29 12:00:00'',
        latitude_min = Some 5, latitude_max = Some 6,
        longitude_min = Some 70, longitude_max = Some 71,
        mld_average = Some (81 / 2), mld_minimum = Some 40, mld_maximum = Some 41,
        temporal_distribution =
          [[(''year'', PyNum 2019), (''month'', PyNum 1), (''record_count'', PyNum 1)],
           [(''year'', PyNaN), (''month'', PyNaN), (''record_count'', PyNum 1)]]\<rparr>
   \<and> \<not> nan_free [(''year'', PyNaN), (''month'', PyNaN), (''record_count'', PyNum 1)]"
  by code_simp

end
